theory Spec2Isabelle
  imports Complex_Main "HOL-Library.Multiset"
begin

section \<open>Exceptions of the Python runtime\<close>

text \<open>
  Every \<open>raise\<close> of the source, and every exception that a library call of the source
  can raise, is a value of this type. A function of the source that can raise returns
  \<open>exn + 'a\<close>, with \<open>Inl\<close> for the exception.
\<close>

datatype exn =
    ValueError
  | KeyError
  | TypeError
  | AttributeError
  | ZeroDivisionError
  | UnboundLocalError
  | JSONDecodeError
  | ClientError
  | TimeoutError
  | DatabaseError
  | TelegramError

section \<open>The history store (app/db/models.py, app/db/database.py)\<close>

text \<open>
  A row of the table \<open>search_history\<close>. The column \<open>id\<close> is the primary key; it is
  called \<open>row_id\<close> here, since \<open>id\<close> is the identity function of HOL. Python floats are
  idealised as reals; the timestamp is the number of microseconds since the epoch.
\<close>

type_synonym datetime = int

record SearchHistory =
  row_id :: int
  user_id :: int
  query :: string
  movie_id :: string
  movie_title :: string
  movie_url :: "string option"
  movie_rating :: "real option"
  timestamp :: datetime

text \<open>
  One entry of the list that \<open>get_user_stats\<close> returns: the dictionary with the keys
  \<open>movie_id\<close>, \<open>movie_title\<close>, \<open>movie_url\<close>, \<open>avg_rating\<close> and \<open>search_count\<close>.
\<close>

record stats_item =
  st_movie_id :: string
  st_movie_title :: string
  st_movie_url :: "string option"
  avg_rating :: "real option"
  search_count :: int

text \<open>
  The expression of lines 101 and 138 of database.py,
  \<open>max(1, (total_count + per_page - 1) // per_page)\<close>. Python's \<open>//\<close> on integers is the
  floor division, as \<open>div\<close> on \<open>int\<close> is; division by zero raises and is guarded by the
  callers below.
\<close>

definition total_pages_of :: "int \<Rightarrow> int \<Rightarrow> int" where
  "total_pages_of total_count per_page = max 1 ((total_count + per_page - 1) div per_page)"

text \<open>
  \<open>OFFSET\<close> and \<open>LIMIT\<close> as the configured engine (SQLite, the default of
  \<open>DATABASE_URL\<close>) evaluates them: a negative offset is an offset of zero, a negative
  limit is no limit.
\<close>

definition sql_offset :: "int \<Rightarrow> 'a list \<Rightarrow> 'a list" where
  "sql_offset n xs = drop (nat n) xs"

definition sql_limit :: "int \<Rightarrow> 'a list \<Rightarrow> 'a list" where
  "sql_limit n xs = (if n < 0 then xs else take (nat n) xs)"

text \<open>\<open>WHERE SearchHistory.user_id == user_id\<close>.\<close>

definition rows_of_user :: "SearchHistory list \<Rightarrow> int \<Rightarrow> SearchHistory list" where
  "rows_of_user tbl uid = filter (\<lambda>r. user_id r = uid) tbl"

text \<open>\<open>ORDER BY search_history.id DESC\<close>.\<close>

definition order_by_id_desc :: "SearchHistory list \<Rightarrow> SearchHistory list" where
  "order_by_id_desc rows = rev (sort_key row_id rows)"

text \<open>
  \<open>Database.get_user_history\<close> (lines 127 to 153). The table is the state that the
  session reads; the function does not change it.
\<close>

definition get_user_history ::
  "SearchHistory list \<Rightarrow> int \<Rightarrow> int \<Rightarrow> int \<Rightarrow> exn + (SearchHistory list \<times> int)" where
  "get_user_history tbl uid page per_page =
     (let total_count = int (length (rows_of_user tbl uid)) in
      if per_page = 0 then Inl ZeroDivisionError
      else
        let total_pages = total_pages_of total_count per_page;
            offset = (page - 1) * per_page;
            history = sql_limit per_page (sql_offset offset (order_by_id_desc (rows_of_user tbl uid)))
        in Inr (history, total_pages))"

subsection \<open>The aggregation of get_user_stats\<close>

text \<open>The three columns of the \<open>GROUP BY\<close> clause.\<close>

definition group_key :: "SearchHistory \<Rightarrow> string \<times> string \<times> string option" where
  "group_key r = (movie_id r, movie_title r, movie_url r)"

text \<open>
  \<open>AVG\<close> skips the rows whose rating is \<open>NULL\<close> and is \<open>NULL\<close> itself when there is no
  other row.
\<close>

definition sql_avg :: "real option list \<Rightarrow> real option" where
  "sql_avg vs =
     (let present = map the (filter (\<lambda>v. v \<noteq> None) vs) in
      if present = [] then None else Some (sum_list present / real (length present)))"

text \<open>
  One row of the subquery (lines 81 to 92): the group's three columns, the average of
  its ratings and the number of its rows.
\<close>

record stats_row =
  g_movie_id :: string
  g_movie_title :: string
  g_movie_url :: "string option"
  g_avg_rating :: "real option"
  g_search_count :: int

definition aggregate :: "SearchHistory list \<Rightarrow> string \<times> string \<times> string option \<Rightarrow> stats_row" where
  "aggregate rows k =
     (let members = filter (\<lambda>r. group_key r = k) rows in
      \<lparr> g_movie_id = fst k, g_movie_title = fst (snd k), g_movie_url = snd (snd k),
        g_avg_rating = sql_avg (map movie_rating members),
        g_search_count = int (length members) \<rparr>)"

text \<open>
  The subquery: one row for each distinct key among the user's rows. SQL leaves the order
  of the groups open; here they come in the order of each key's last row.
\<close>

definition stats_subquery :: "SearchHistory list \<Rightarrow> int \<Rightarrow> stats_row list" where
  "stats_subquery tbl uid =
     (let rows = rows_of_user tbl uid in map (aggregate rows) (remdups (map group_key rows)))"

text \<open>\<open>ORDER BY search_count DESC\<close>; the order among equal counts is the engine's.\<close>

definition order_by_count_desc :: "stats_row list \<Rightarrow> stats_row list" where
  "order_by_count_desc gs = sort_key (\<lambda>g. - g_search_count g) gs"


text \<open>
  The dictionary built at lines 113 to 119. The test \<open>if row.avg_rating\<close> is Python's
  truth test: \<open>None\<close> and \<open>0.0\<close> are both false.
\<close>

definition stats_dict :: "(real \<Rightarrow> real) \<Rightarrow> stats_row \<Rightarrow> stats_item" where
  "stats_dict rnd row =
     \<lparr> st_movie_id = g_movie_id row, st_movie_title = g_movie_title row,
       st_movie_url = g_movie_url row,
       avg_rating = (case g_avg_rating row of
                       None \<Rightarrow> None
                     | Some a \<Rightarrow> if a \<noteq> 0 then Some (rnd a) else None),
       search_count = g_search_count row \<rparr>"

text \<open>
  \<open>Database.get_user_stats\<close> (lines 79 to 125), with the rounding of the runtime as its
  first argument.
\<close>

definition get_user_stats ::
  "(real \<Rightarrow> real) \<Rightarrow> SearchHistory list \<Rightarrow> int \<Rightarrow> int \<Rightarrow> int
    \<Rightarrow> exn + (stats_item list \<times> int)" where
  "get_user_stats rnd tbl uid page per_page =
     (let subquery = stats_subquery tbl uid;
          total_count = int (length subquery) in
      if per_page = 0 then Inl ZeroDivisionError
      else
        let total_pages = total_pages_of total_count per_page;
            offset = (page - 1) * per_page;
            stats = sql_limit per_page (sql_offset offset (order_by_count_desc subquery));
            stats_list = map (stats_dict rnd) stats
        in Inr (stats_list, total_pages))"

subsection \<open>A table for the scenarios\<close>

text \<open>
  Fourteen rows, twelve of them of user 1 and two of user 2, inserted in the order of
  their ids.
\<close>

definition example_row :: "int \<Rightarrow> int \<Rightarrow> SearchHistory" where
  "example_row i u =
     \<lparr> row_id = i, user_id = u, query = ''q'', movie_id = ''301'', movie_title = ''t'',
       movie_url = None, movie_rating = None, timestamp = 0 \<rparr>"

definition example_table :: "SearchHistory list" where
  "example_table =
     [example_row 1 1, example_row 2 2, example_row 3 1, example_row 4 1, example_row 5 1,
      example_row 6 1, example_row 7 1, example_row 8 1, example_row 9 2, example_row 10 1,
      example_row 11 1, example_row 12 1, example_row 13 1, example_row 14 1]"

subsection \<open>Reading the aggregates\<close>





text \<open>
  A rounding for the scenarios: a value halfway between two tenths goes up. It stands for
  the rounding of the runtime only where no such value occurs.
\<close>

definition round_half_up_tenth :: "real \<Rightarrow> real" where
  "round_half_up_tenth x = of_int \<lfloor>x * 10 + 1 / 2\<rfloor> / 10"


section \<open>Strings and integers of the Python runtime\<close>

text \<open>
  A Python string is a \<open>string\<close>: the list of the bytes of its UTF-8 form, so a literal
  of the source outside ASCII is written as its bytes. The delimiter of the tokens is an
  ASCII character, and no byte of a longer UTF-8 sequence is an ASCII byte.
\<close>

definition digit_char :: "nat \<Rightarrow> char" where
  "digit_char d = char_of (48 + d)"

text \<open>\<open>str(n)\<close> for an integer, as the f-strings of the source render it.\<close>

fun digits_of :: "nat \<Rightarrow> string" where
  "digits_of n =
     (if n < 10 then [digit_char n] else digits_of (n div 10) @ [digit_char (n mod 10)])"

declare digits_of.simps [simp del]

definition str_int :: "int \<Rightarrow> string" where
  "str_int i = (if i < 0 then CHR ''-'' # digits_of (nat (- i)) else digits_of (nat i))"

text \<open>
  \<open>s.split(sep)\<close> with a separator of one character: the pieces between the
  separators, one more than there are separators.
\<close>

fun split_on :: "char \<Rightarrow> string \<Rightarrow> string list" where
  "split_on sep [] = [[]]"
| "split_on sep (c # cs) =
     (if c = sep then [] # split_on sep cs
      else (case split_on sep cs of
              [] \<Rightarrow> [[c]]
            | p # ps \<Rightarrow> (c # p) # ps))"

text \<open>
  \<open>int(s)\<close> for a string of ASCII characters: white space around the number is dropped,
  one sign may lead, and the digits may be grouped by single underscores. \<open>None\<close> stands
  for the \<open>ValueError\<close>. The limit of the interpreter on the number of digits of a
  conversion between \<open>int\<close> and \<open>str\<close> (4300 by default) is left out, here and in
  \<open>str_int\<close>.
\<close>

definition is_ascii :: "char \<Rightarrow> bool" where
  "is_ascii c = ((of_char c :: nat) < 128)"

definition is_space :: "char \<Rightarrow> bool" where
  "is_space c = ((of_char c :: nat) \<in> {9, 10, 11, 12, 13, 28, 29, 30, 31, 32})"

definition strip :: "string \<Rightarrow> string" where
  "strip s = rev (dropWhile is_space (rev (dropWhile is_space s)))"

definition is_digit :: "char \<Rightarrow> bool" where
  "is_digit c = (48 \<le> (of_char c :: nat) \<and> (of_char c :: nat) \<le> 57)"

definition digit_value :: "char \<Rightarrow> nat" where
  "digit_value c = of_char c - 48"

fun digits_tail :: "string \<Rightarrow> bool" where
  "digits_tail [] = True"
| "digits_tail (c # cs) =
     (if is_digit c then digits_tail cs
      else if c = CHR ''_'' then (case cs of [] \<Rightarrow> False | d # ds \<Rightarrow> is_digit d \<and> digits_tail ds)
      else False)"

definition valid_digits :: "string \<Rightarrow> bool" where
  "valid_digits ds = (case ds of [] \<Rightarrow> False | c # cs \<Rightarrow> is_digit c \<and> digits_tail cs)"

definition digits_value :: "string \<Rightarrow> nat" where
  "digits_value ds = foldl (\<lambda>a c. 10 * a + digit_value c) 0 (filter is_digit ds)"

definition ascii_int :: "string \<Rightarrow> int option" where
  "ascii_int s =
     (let t = strip s;
          (sgn, ds) = (case t of
                         [] \<Rightarrow> (1, [])
                       | c # r \<Rightarrow> if c = CHR ''-'' then (- 1, r)
                                  else if c = CHR ''+'' then (1, r) else (1, t))
      in if valid_digits ds then Some (sgn * int (digits_value ds)) else None)"

text \<open>
  \<open>int(s)\<close> for any string. On a string with a character outside ASCII Python also reads
  the decimal digits and the spaces of other scripts; what it gives there is taken as
  given, as the function \<open>beyond_ascii\<close>.
\<close>

definition py_int :: "(string \<Rightarrow> int option) \<Rightarrow> string \<Rightarrow> int option" where
  "py_int beyond_ascii s = (if list_all is_ascii s then ascii_int s else beyond_ascii s)"

section \<open>The pagination tokens and the keyboard (app/bot.py)\<close>

text \<open>
  An inline button: its label (the argument \<open>text\<close> of \<open>builder.button\<close>) and the token
  it carries.
\<close>

record button =
  btn_text :: string
  callback_data :: string

text \<open>The labels of lines 243 and 245: an arrow and the Russian for back and forward.\<close>

definition label_back :: string where
  "label_back = [CHR 0xE2, CHR 0x97, CHR 0x80, CHR 0xEF, CHR 0xB8, CHR 0x8F] @ '' ''
     @ [CHR 0xD0, CHR 0x9D, CHR 0xD0, CHR 0xB0, CHR 0xD0, CHR 0xB7, CHR 0xD0, CHR 0xB0,
        CHR 0xD0, CHR 0xB4]"

definition label_forward :: string where
  "label_forward = [CHR 0xD0, CHR 0x92, CHR 0xD0, CHR 0xBF, CHR 0xD0, CHR 0xB5, CHR 0xD1,
        CHR 0x80, CHR 0xD0, CHR 0xB5, CHR 0xD0, CHR 0xB4] @ '' ''
     @ [CHR 0xE2, CHR 0x96, CHR 0xB6, CHR 0xEF, CHR 0xB8, CHR 0x8F]"

text \<open>
  The f-string \<open>f"pagination_{content_type}_prev_{current_page}"\<close> of line 243 and its twin
  of line 245, with the direction as an argument.
\<close>

definition pagination_token :: "string \<Rightarrow> string \<Rightarrow> int \<Rightarrow> string" where
  "pagination_token content_type action current_page =
     ''pagination_'' @ content_type @ ''_'' @ action @ ''_'' @ str_int current_page"

text \<open>
  \<open>CinemaBot._get_pagination_keyboard\<close> (lines 239 to 247): the buttons in the order in
  which the builder receives them.
\<close>

definition get_pagination_keyboard :: "string \<Rightarrow> int \<Rightarrow> int \<Rightarrow> button list" where
  "get_pagination_keyboard content_type current_page total_pages =
     (if 1 < current_page
      then [\<lparr> btn_text = label_back,
              callback_data = pagination_token content_type ''prev'' current_page \<rparr>]
      else [])
     @ (if current_page < total_pages
        then [\<lparr> btn_text = label_forward,
                callback_data = pagination_token content_type ''next'' current_page \<rparr>]
        else [])"

text \<open>
  The decoding at the head of \<open>handle_pagination\<close> (lines 272 to 282): the two ways in which
  it gives up, each with its own log line, or the three values it reads.
\<close>

datatype decode_error = SegmentCount | PageNumber

definition decode_pagination ::
  "(string \<Rightarrow> int option) \<Rightarrow> string option \<Rightarrow> decode_error + (string \<times> string \<times> int)" where
  "decode_pagination beyond_ascii data =
     (let callback_data = (case data of None \<Rightarrow> [] | Some d \<Rightarrow> d);
          parts = split_on CHR ''_'' callback_data
      in if length parts \<noteq> 4 then Inl SegmentCount
         else (case py_int beyond_ascii (parts ! 3) of
                 None \<Rightarrow> Inl PageNumber
               | Some current_page \<Rightarrow> Inr (parts ! 1, parts ! 2, current_page)))"

section \<open>The pagination handler (app/bot.py)\<close>

subsection \<open>The literals of the source\<close>

text \<open>
  The Russian literals of the handler and of the two formatting functions, as the bytes of
  their UTF-8 form; each is named after its meaning.
\<close>

text \<open>Of line 269: the message is not found.\<close>

definition txt_message_not_found :: string where
  "txt_message_not_found =
     [CHR 0xD0, CHR 0xA1, CHR 0xD0, CHR 0xBE, CHR 0xD0, CHR 0xBE, CHR 0xD0, CHR 0xB1,
       CHR 0xD1, CHR 0x89, CHR 0xD0, CHR 0xB5, CHR 0xD0, CHR 0xBD, CHR 0xD0, CHR 0xB8,
       CHR 0xD0, CHR 0xB5] @ '' '' @ [CHR 0xD0, CHR 0xBD, CHR 0xD0, CHR 0xB5] @ '' ''
       @ [CHR 0xD0, CHR 0xBD, CHR 0xD0, CHR 0xB0, CHR 0xD0, CHR 0xB9, CHR 0xD0, CHR 0xB4,
       CHR 0xD0, CHR 0xB5, CHR 0xD0, CHR 0xBD, CHR 0xD0, CHR 0xBE]"

text \<open>Of line 286: the user is not found.\<close>

definition txt_user_not_found :: string where
  "txt_user_not_found =
     [CHR 0xD0, CHR 0x9F, CHR 0xD0, CHR 0xBE, CHR 0xD0, CHR 0xBB, CHR 0xD1, CHR 0x8C,
       CHR 0xD0, CHR 0xB7, CHR 0xD0, CHR 0xBE, CHR 0xD0, CHR 0xB2, CHR 0xD0, CHR 0xB0,
       CHR 0xD1, CHR 0x82, CHR 0xD0, CHR 0xB5, CHR 0xD0, CHR 0xBB, CHR 0xD1, CHR 0x8C]
       @ '' '' @ [CHR 0xD0, CHR 0xBD, CHR 0xD0, CHR 0xB5] @ '' '' @ [CHR 0xD0, CHR 0xBD,
       CHR 0xD0, CHR 0xB0, CHR 0xD0, CHR 0xB9, CHR 0xD0, CHR 0xB4, CHR 0xD0, CHR 0xB5,
       CHR 0xD0, CHR 0xBD]"

text \<open>Of lines 299 and 303: error while getting the content.\<close>

definition txt_content_error :: string where
  "txt_content_error =
     [CHR 0xD0, CHR 0x9E, CHR 0xD1, CHR 0x88, CHR 0xD0, CHR 0xB8, CHR 0xD0, CHR 0xB1,
       CHR 0xD0, CHR 0xBA, CHR 0xD0, CHR 0xB0] @ '' '' @ [CHR 0xD0, CHR 0xBF, CHR 0xD1,
       CHR 0x80, CHR 0xD0, CHR 0xB8] @ '' '' @ [CHR 0xD0, CHR 0xBF, CHR 0xD0, CHR 0xBE,
       CHR 0xD0, CHR 0xBB, CHR 0xD1, CHR 0x83, CHR 0xD1, CHR 0x87, CHR 0xD0, CHR 0xB5,
       CHR 0xD0, CHR 0xBD, CHR 0xD0, CHR 0xB8, CHR 0xD0, CHR 0xB8] @ '' '' @ [CHR 0xD0,
       CHR 0xBA, CHR 0xD0, CHR 0xBE, CHR 0xD0, CHR 0xBD, CHR 0xD1, CHR 0x82, CHR 0xD0,
       CHR 0xB5, CHR 0xD0, CHR 0xBD, CHR 0xD1, CHR 0x82, CHR 0xD0, CHR 0xB0]"

text \<open>Of line 317: an error occurred while updating the content.\<close>

definition txt_update_error :: string where
  "txt_update_error =
     [CHR 0xD0, CHR 0x9F, CHR 0xD1, CHR 0x80, CHR 0xD0, CHR 0xBE, CHR 0xD0, CHR 0xB8,
       CHR 0xD0, CHR 0xB7, CHR 0xD0, CHR 0xBE, CHR 0xD1, CHR 0x88, CHR 0xD0, CHR 0xBB,
       CHR 0xD0, CHR 0xB0] @ '' '' @ [CHR 0xD0, CHR 0xBE, CHR 0xD1, CHR 0x88, CHR 0xD0,
       CHR 0xB8, CHR 0xD0, CHR 0xB1, CHR 0xD0, CHR 0xBA, CHR 0xD0, CHR 0xB0] @ '' ''
       @ [CHR 0xD0, CHR 0xBF, CHR 0xD1, CHR 0x80, CHR 0xD0, CHR 0xB8] @ '' '' @ [CHR 0xD0,
       CHR 0xBE, CHR 0xD0, CHR 0xB1, CHR 0xD0, CHR 0xBD, CHR 0xD0, CHR 0xBE, CHR 0xD0,
       CHR 0xB2, CHR 0xD0, CHR 0xBB, CHR 0xD0, CHR 0xB5, CHR 0xD0, CHR 0xBD, CHR 0xD0,
       CHR 0xB8, CHR 0xD0, CHR 0xB8] @ '' '' @ [CHR 0xD0, CHR 0xBA, CHR 0xD0, CHR 0xBE,
       CHR 0xD0, CHR 0xBD, CHR 0xD1, CHR 0x82, CHR 0xD0, CHR 0xB5, CHR 0xD0, CHR 0xBD,
       CHR 0xD1, CHR 0x82, CHR 0xD0, CHR 0xB0]"

text \<open>Of line 275: error in the pagination data.\<close>

definition log_pagination_data :: string where
  "log_pagination_data =
     [CHR 0xD0, CHR 0x9E, CHR 0xD1, CHR 0x88, CHR 0xD0, CHR 0xB8, CHR 0xD0, CHR 0xB1,
       CHR 0xD0, CHR 0xBA, CHR 0xD0, CHR 0xB0] @ '' '' @ [CHR 0xD0, CHR 0xB4, CHR 0xD0,
       CHR 0xB0, CHR 0xD0, CHR 0xBD, CHR 0xD0, CHR 0xBD, CHR 0xD1, CHR 0x8B, CHR 0xD1,
       CHR 0x85] @ '' '' @ [CHR 0xD0, CHR 0xBF, CHR 0xD0, CHR 0xB0, CHR 0xD0, CHR 0xB3,
       CHR 0xD0, CHR 0xB8, CHR 0xD0, CHR 0xBD, CHR 0xD0, CHR 0xB0, CHR 0xD1, CHR 0x86,
       CHR 0xD0, CHR 0xB8, CHR 0xD0, CHR 0xB8]"

text \<open>Of line 281: error in the page number.\<close>

definition log_page_number :: string where
  "log_page_number =
     [CHR 0xD0, CHR 0x9E, CHR 0xD1, CHR 0x88, CHR 0xD0, CHR 0xB8, CHR 0xD0, CHR 0xB1,
       CHR 0xD0, CHR 0xBA, CHR 0xD0, CHR 0xB0] @ '' '' @ [CHR 0xD0, CHR 0xBD, CHR 0xD0,
       CHR 0xBE, CHR 0xD0, CHR 0xBC, CHR 0xD0, CHR 0xB5, CHR 0xD1, CHR 0x80, CHR 0xD0,
       CHR 0xB0] @ '' '' @ [CHR 0xD1, CHR 0x81, CHR 0xD1, CHR 0x82, CHR 0xD1, CHR 0x80,
       CHR 0xD0, CHR 0xB0, CHR 0xD0, CHR 0xBD, CHR 0xD0, CHR 0xB8, CHR 0xD1, CHR 0x86,
       CHR 0xD1, CHR 0x8B]"

text \<open>Of line 298: wrong content type.\<close>

definition log_content_type :: string where
  "log_content_type =
     [CHR 0xD0, CHR 0x9D, CHR 0xD0, CHR 0xB5, CHR 0xD0, CHR 0xB2, CHR 0xD0, CHR 0xB5,
       CHR 0xD1, CHR 0x80, CHR 0xD0, CHR 0xBD, CHR 0xD1, CHR 0x8B, CHR 0xD0, CHR 0xB9]
       @ '' '' @ [CHR 0xD1, CHR 0x82, CHR 0xD0, CHR 0xB8, CHR 0xD0, CHR 0xBF] @ '' ''
       @ [CHR 0xD0, CHR 0xBA, CHR 0xD0, CHR 0xBE, CHR 0xD0, CHR 0xBD, CHR 0xD1, CHR 0x82,
       CHR 0xD0, CHR 0xB5, CHR 0xD0, CHR 0xBD, CHR 0xD1, CHR 0x82, CHR 0xD0, CHR 0xB0]"

text \<open>Of line 316: error while handling the pagination, before the content type.\<close>

definition log_pagination_failed :: string where
  "log_pagination_failed =
     [CHR 0xD0, CHR 0x9E, CHR 0xD1, CHR 0x88, CHR 0xD0, CHR 0xB8, CHR 0xD0, CHR 0xB1,
       CHR 0xD0, CHR 0xBA, CHR 0xD0, CHR 0xB0] @ '' '' @ [CHR 0xD0, CHR 0xBF, CHR 0xD1,
       CHR 0x80, CHR 0xD0, CHR 0xB8] @ '' '' @ [CHR 0xD0, CHR 0xBE, CHR 0xD0, CHR 0xB1,
       CHR 0xD1, CHR 0x80, CHR 0xD0, CHR 0xB0, CHR 0xD0, CHR 0xB1, CHR 0xD0, CHR 0xBE,
       CHR 0xD1, CHR 0x82, CHR 0xD0, CHR 0xBA, CHR 0xD0, CHR 0xB5] @ '' '' @ [CHR 0xD0,
       CHR 0xBF, CHR 0xD0, CHR 0xB0, CHR 0xD0, CHR 0xB3, CHR 0xD0, CHR 0xB8, CHR 0xD0,
       CHR 0xBD, CHR 0xD0, CHR 0xB0, CHR 0xD1, CHR 0x86, CHR 0xD0, CHR 0xB8, CHR 0xD0,
       CHR 0xB8] @ '' ''"

text \<open>Of line 209: the search history is empty.\<close>

definition txt_history_empty :: string where
  "txt_history_empty =
     [CHR 0xD0, CHR 0x98, CHR 0xD1, CHR 0x81, CHR 0xD1, CHR 0x82, CHR 0xD0, CHR 0xBE,
       CHR 0xD1, CHR 0x80, CHR 0xD0, CHR 0xB8, CHR 0xD1, CHR 0x8F] @ '' '' @ [CHR 0xD0,
       CHR 0xBF, CHR 0xD0, CHR 0xBE, CHR 0xD0, CHR 0xB8, CHR 0xD1, CHR 0x81, CHR 0xD0,
       CHR 0xBA, CHR 0xD0, CHR 0xB0] @ '' '' @ [CHR 0xD0, CHR 0xBF, CHR 0xD1, CHR 0x83,
       CHR 0xD1, CHR 0x81, CHR 0xD1, CHR 0x82, CHR 0xD0, CHR 0xB0]"

text \<open>Of line 251: the search statistics are empty.\<close>

definition txt_stats_empty :: string where
  "txt_stats_empty =
     [CHR 0xD0, CHR 0xA1, CHR 0xD1, CHR 0x82, CHR 0xD0, CHR 0xB0, CHR 0xD1, CHR 0x82,
       CHR 0xD0, CHR 0xB8, CHR 0xD1, CHR 0x81, CHR 0xD1, CHR 0x82, CHR 0xD0, CHR 0xB8,
       CHR 0xD0, CHR 0xBA, CHR 0xD0, CHR 0xB0] @ '' '' @ [CHR 0xD0, CHR 0xBF, CHR 0xD0,
       CHR 0xBE, CHR 0xD0, CHR 0xB8, CHR 0xD1, CHR 0x81, CHR 0xD0, CHR 0xBA, CHR 0xD0,
       CHR 0xB0] @ '' '' @ [CHR 0xD0, CHR 0xBF, CHR 0xD1, CHR 0x83, CHR 0xD1, CHR 0x81,
       CHR 0xD1, CHR 0x82, CHR 0xD0, CHR 0xB0]"

text \<open>Of line 211: search history (page.\<close>

definition txt_history_head :: string where
  "txt_history_head =
     [CHR 0xF0, CHR 0x9F, CHR 0x93, CHR 0x9D] @ '' '' @ [CHR 0xD0, CHR 0x98, CHR 0xD1,
       CHR 0x81, CHR 0xD1, CHR 0x82, CHR 0xD0, CHR 0xBE, CHR 0xD1, CHR 0x80, CHR 0xD0,
       CHR 0xB8, CHR 0xD1, CHR 0x8F] @ '' '' @ [CHR 0xD0, CHR 0xBF, CHR 0xD0, CHR 0xBE,
       CHR 0xD0, CHR 0xB8, CHR 0xD1, CHR 0x81, CHR 0xD0, CHR 0xBA, CHR 0xD0, CHR 0xB0]
       @ '' ('' @ [CHR 0xD1, CHR 0x81, CHR 0xD1, CHR 0x82, CHR 0xD1, CHR 0x80, CHR 0xD0,
       CHR 0xB0, CHR 0xD0, CHR 0xBD, CHR 0xD0, CHR 0xB8, CHR 0xD1, CHR 0x86, CHR 0xD0,
       CHR 0xB0] @ '' ''"

text \<open>Of line 253: search statistics (page.\<close>

definition txt_stats_head :: string where
  "txt_stats_head =
     [CHR 0xF0, CHR 0x9F, CHR 0x93, CHR 0x8A] @ '' '' @ [CHR 0xD0, CHR 0xA1, CHR 0xD1,
       CHR 0x82, CHR 0xD0, CHR 0xB0, CHR 0xD1, CHR 0x82, CHR 0xD0, CHR 0xB8, CHR 0xD1,
       CHR 0x81, CHR 0xD1, CHR 0x82, CHR 0xD0, CHR 0xB8, CHR 0xD0, CHR 0xBA, CHR 0xD0,
       CHR 0xB0] @ '' '' @ [CHR 0xD0, CHR 0xBF, CHR 0xD0, CHR 0xBE, CHR 0xD0, CHR 0xB8,
       CHR 0xD1, CHR 0x81, CHR 0xD0, CHR 0xBA, CHR 0xD0, CHR 0xB0] @ '' ('' @ [CHR 0xD1,
       CHR 0x81, CHR 0xD1, CHR 0x82, CHR 0xD1, CHR 0x80, CHR 0xD0, CHR 0xB0, CHR 0xD0,
       CHR 0xBD, CHR 0xD0, CHR 0xB8, CHR 0xD1, CHR 0x86, CHR 0xD0, CHR 0xB0] @ '' ''"

text \<open>Of lines 211 and 253: of.\<close>

definition txt_of :: string where
  "txt_of =
     '' '' @ [CHR 0xD0, CHR 0xB8, CHR 0xD0, CHR 0xB7] @ '' ''"

text \<open>Of line 213.\<close>

definition txt_query_mark :: string where
  "txt_query_mark =
     [CHR 0xF0, CHR 0x9F, CHR 0x94, CHR 0x8D] @ '' ''"

text \<open>Of lines 214 and 256.\<close>

definition txt_film_mark :: string where
  "txt_film_mark =
     [CHR 0xF0, CHR 0x9F, CHR 0x8E, CHR 0xAC] @ '' ''"

text \<open>Of line 216.\<close>

definition txt_rating_open :: string where
  "txt_rating_open =
     '' ('' @ [CHR 0xF0, CHR 0x9F, CHR 0xA4, CHR 0xA9] @ '' ''"

text \<open>Of line 219.\<close>

definition txt_link_mark :: string where
  "txt_link_mark =
     [CHR 0xF0, CHR 0x9F, CHR 0x94, CHR 0x97] @ '' ''"

text \<open>Of line 220.\<close>

definition txt_date_mark :: string where
  "txt_date_mark =
     [CHR 0xF0, CHR 0x9F, CHR 0x93, CHR 0x85] @ '' ''"

text \<open>Of line 257: number of searches.\<close>

definition txt_count_mark :: string where
  "txt_count_mark =
     [CHR 0xF0, CHR 0x9F, CHR 0x94, CHR 0xA2] @ '' '' @ [CHR 0xD0, CHR 0x9A, CHR 0xD0,
       CHR 0xBE, CHR 0xD0, CHR 0xBB, CHR 0xD0, CHR 0xB8, CHR 0xD1, CHR 0x87, CHR 0xD0,
       CHR 0xB5, CHR 0xD1, CHR 0x81, CHR 0xD1, CHR 0x82, CHR 0xD0, CHR 0xB2, CHR 0xD0,
       CHR 0xBE] @ '' '' @ [CHR 0xD0, CHR 0xBF, CHR 0xD0, CHR 0xBE, CHR 0xD0, CHR 0xB8,
       CHR 0xD1, CHR 0x81, CHR 0xD0, CHR 0xBA, CHR 0xD0, CHR 0xBE, CHR 0xD0, CHR 0xB2]
       @ '': ''"

text \<open>Of line 259: rating.\<close>

definition txt_rating_mark :: string where
  "txt_rating_mark =
     [CHR 0xF0, CHR 0x9F, CHR 0xA4, CHR 0xA9] @ '' '' @ [CHR 0xD0, CHR 0xA0, CHR 0xD0,
       CHR 0xB5, CHR 0xD0, CHR 0xB9, CHR 0xD1, CHR 0x82, CHR 0xD0, CHR 0xB8, CHR 0xD0,
       CHR 0xBD, CHR 0xD0, CHR 0xB3] @ '': ''"

text \<open>Of line 261: view.\<close>

definition txt_view_mark :: string where
  "txt_view_mark =
     [CHR 0xD0, CHR 0x9F, CHR 0xD1, CHR 0x80, CHR 0xD0, CHR 0xBE, CHR 0xD1, CHR 0x81,
       CHR 0xD0, CHR 0xBC, CHR 0xD0, CHR 0xBE, CHR 0xD1, CHR 0x82, CHR 0xD1, CHR 0x80,
       CHR 0xD0, CHR 0xB5, CHR 0xD1, CHR 0x82, CHR 0xD1, CHR 0x8C] @ '': ''"

subsection \<open>The world of a handler\<close>

text \<open>A row of the table \<open>users\<close>; the column \<open>id\<close> is called \<open>u_id\<close>.\<close>

record User =
  u_id :: int
  telegram_id :: int
  username :: "string option"

text \<open>
  \<open>callback.message\<close>: absent, a message that Telegram no longer shows to the bot, or a
  message with its text.
\<close>

datatype maybe_message = NoMessage | InaccessibleMessage | Message "string option"

record CallbackQuery =
  cb_message :: maybe_message
  cb_data :: "string option"
  from_user_id :: int

text \<open>
  What a handler does to the outside, in the order in which it does it: a line of the
  error log (with the exception that the line renders, if any), an answer to the callback
  query (text and \<open>show_alert\<close>), an edit of the message (text and keyboard), a new
  message in the chat, the calls of the store and the request to the catalog (address and
  parameters).
\<close>

datatype effect =
    LogError string "exn option"
  | Answer "string option" bool
  | EditText string "button list"
  | MessageAnswer string "button list"
  | GetUserByTelegramId int
  | GetOrCreateUser int "string option"
  | GetUserHistory int int
  | GetUserStats int int
  | HttpGet string "(string \<times> string) list"

text \<open>
  The world in which a handler runs: the two tables, which of the calls to the outside
  raise and what, and what is taken as given of the Python runtime: the two renderings
  that the formatting functions use (\<open>str\<close> of a float and
  \<open>strftime('%d.%m.%Y %H:%M')\<close>), \<open>int\<close> on strings beyond ASCII and the rounding of
  \<open>get_user_stats\<close>.
\<close>

record world =
  users :: "User list"
  history :: "SearchHistory list"
  fault :: "effect \<Rightarrow> exn option"
  str_float :: "real \<Rightarrow> string"
  strftime :: "datetime \<Rightarrow> string"
  int_beyond_ascii :: "string \<Rightarrow> int option"
  round_tenth :: "real \<Rightarrow> real"

text \<open>
  A run of a piece of handler code: the effects it had, and then the exception that left
  it or the value it returned.
\<close>

type_synonym 'a run = "effect list \<times> (exn + 'a)"

definition ret :: "'a \<Rightarrow> 'a run" where
  "ret v = ([], Inr v)"

definition raise :: "exn \<Rightarrow> 'a run" where
  "raise e = ([], Inl e)"

definition and_then :: "'a run \<Rightarrow> ('a \<Rightarrow> 'b run) \<Rightarrow> 'b run" where
  "and_then m f =
     (case m of
        (t, Inl e) \<Rightarrow> (t, Inl e)
      | (t, Inr v) \<Rightarrow> (case f v of (t', r) \<Rightarrow> (t @ t', r)))"

text \<open>\<open>try: m except Exception as e: h e\<close>.\<close>

definition try_except :: "'a run \<Rightarrow> (exn \<Rightarrow> 'a run) \<Rightarrow> 'a run" where
  "try_except m h =
     (case m of
        (t, Inl e) \<Rightarrow> (case h e of (t', r) \<Rightarrow> (t @ t', r))
      | (t, Inr v) \<Rightarrow> (t, Inr v))"

text \<open>A call to the outside: it is recorded, and it raises if the world says so.\<close>

definition call :: "world \<Rightarrow> effect \<Rightarrow> unit run" where
  "call w e = ([e], case fault w e of None \<Rightarrow> Inr () | Some x \<Rightarrow> Inl x)"

definition log_error :: "string \<Rightarrow> exn option \<Rightarrow> unit run" where
  "log_error line e = ([LogError line e], Inr ())"

text \<open>The calls of the store, with the default page size of five.\<close>

definition db_get_user_by_telegram_id :: "world \<Rightarrow> int \<Rightarrow> User option run" where
  "db_get_user_by_telegram_id w tid =
     and_then (call w (GetUserByTelegramId tid))
       (\<lambda>_. ret (find (\<lambda>u. telegram_id u = tid) (users w)))"

definition db_get_user_history :: "world \<Rightarrow> int \<Rightarrow> int \<Rightarrow> (SearchHistory list \<times> int) run" where
  "db_get_user_history w uid page =
     and_then (call w (GetUserHistory uid page))
       (\<lambda>_. case get_user_history (history w) uid page 5 of
               Inl e \<Rightarrow> raise e | Inr r \<Rightarrow> ret r)"

definition db_get_user_stats :: "world \<Rightarrow> int \<Rightarrow> int \<Rightarrow> (stats_item list \<times> int) run" where
  "db_get_user_stats w uid page =
     and_then (call w (GetUserStats uid page))
       (\<lambda>_. case get_user_stats (round_tenth w) (history w) uid page 5 of
               Inl e \<Rightarrow> raise e | Inr r \<Rightarrow> ret r)"

subsection \<open>The two formatting functions\<close>

definition nl :: string where
  "nl = [CHR 0x0A]"

text \<open>The body of the loop of \<open>_format_history_message\<close> (lines 213 to 220).\<close>

definition history_item_text :: "world \<Rightarrow> SearchHistory \<Rightarrow> string" where
  "history_item_text w item =
     txt_query_mark @ query item @ nl
     @ txt_film_mark @ movie_title item
     @ (case movie_rating item of
          None \<Rightarrow> []
        | Some r \<Rightarrow> if r \<noteq> 0 then txt_rating_open @ str_float w r @ '')'' else [])
     @ nl
     @ (case movie_url item of
          None \<Rightarrow> []
        | Some u \<Rightarrow> if u \<noteq> [] then txt_link_mark @ u @ nl else [])
     @ txt_date_mark @ strftime w (timestamp item) @ nl @ nl"

text \<open>\<open>CinemaBot._format_history_message\<close> (lines 207 to 222).\<close>

definition format_history_message :: "world \<Rightarrow> SearchHistory list \<Rightarrow> int \<Rightarrow> int \<Rightarrow> string" where
  "format_history_message w content current_page total_pages =
     (if content = [] then txt_history_empty
      else txt_history_head @ str_int current_page @ txt_of @ str_int total_pages @ ''):''
           @ nl @ nl @ concat (map (history_item_text w) content))"

text \<open>The body of the loop of \<open>_format_stats_message\<close> (lines 256 to 262).\<close>

definition stats_item_text :: "world \<Rightarrow> stats_item \<Rightarrow> string" where
  "stats_item_text w item =
     txt_film_mark @ st_movie_title item @ nl
     @ txt_count_mark @ str_int (search_count item) @ nl
     @ (case avg_rating item of
          None \<Rightarrow> []
        | Some a \<Rightarrow> if a \<noteq> 0 then txt_rating_mark @ str_float w a @ nl else [])
     @ (case st_movie_url item of
          None \<Rightarrow> []
        | Some u \<Rightarrow> if u \<noteq> [] then txt_view_mark @ u @ nl else [])
     @ nl"

text \<open>\<open>CinemaBot._format_stats_message\<close> (lines 249 to 264).\<close>

definition format_stats_message :: "world \<Rightarrow> stats_item list \<Rightarrow> int \<Rightarrow> int \<Rightarrow> string" where
  "format_stats_message w content current_page total_pages =
     (if content = [] then txt_stats_empty
      else txt_stats_head @ str_int current_page @ txt_of @ str_int total_pages @ ''):''
           @ nl @ nl @ concat (map (stats_item_text w) content))"

subsection \<open>handle_pagination\<close>

text \<open>
  Lines 302 to 313: the alert for an empty page, or the edit of the message and the plain
  answer to the query.
\<close>

definition show_page :: "world \<Rightarrow> string \<Rightarrow> int \<Rightarrow> bool \<Rightarrow> string \<Rightarrow> int \<Rightarrow> unit run" where
  "show_page w content_type new_page no_content txt total_pages =
     (if no_content \<and> 0 < total_pages then call w (Answer (Some txt_content_error) True)
      else and_then
             (call w (EditText txt (get_pagination_keyboard content_type new_page total_pages)))
             (\<lambda>_. call w (Answer None False)))"

text \<open>Line 289.\<close>

definition new_page_of :: "string \<Rightarrow> int \<Rightarrow> int" where
  "new_page_of action current_page =
     (if action = ''next'' then current_page + 1 else current_page - 1)"

text \<open>Lines 284 to 313, after the token is decoded.\<close>

definition pagination_body :: "world \<Rightarrow> CallbackQuery \<Rightarrow> string \<Rightarrow> string \<Rightarrow> int \<Rightarrow> unit run" where
  "pagination_body w callback content_type action current_page =
     and_then (db_get_user_by_telegram_id w (from_user_id callback))
       (\<lambda>user. case user of
          None \<Rightarrow> call w (Answer (Some txt_user_not_found) True)
        | Some u \<Rightarrow>
            let new_page = new_page_of action current_page in
            if content_type = ''history'' then
              and_then (db_get_user_history w (u_id u) new_page)
                (\<lambda>(content, total_pages).
                   show_page w content_type new_page (content = [])
                     (format_history_message w content new_page total_pages) total_pages)
            else if content_type = ''stats'' then
              and_then (db_get_user_stats w (u_id u) new_page)
                (\<lambda>(content, total_pages).
                   show_page w content_type new_page (content = [])
                     (format_stats_message w content new_page total_pages) total_pages)
            else
              and_then (log_error log_content_type None)
                (\<lambda>_. call w (Answer (Some txt_content_error) True)))"

text \<open>
  The \<open>except\<close> clause of lines 315 to 317. Its log line reads the local variable
  \<open>content_type\<close>, which line 277 binds: where the exception was raised before that line,
  the read raises in its turn.
\<close>

definition pagination_except :: "world \<Rightarrow> string option \<Rightarrow> exn \<Rightarrow> unit run" where
  "pagination_except w bound_content_type e =
     (case bound_content_type of
        None \<Rightarrow> raise UnboundLocalError
      | Some content_type \<Rightarrow>
          and_then (log_error (log_pagination_failed @ content_type @ '': '') (Some e))
            (\<lambda>_. call w (Answer (Some txt_update_error) True)))"

text \<open>\<open>CinemaBot.handle_pagination\<close> (lines 266 to 317).\<close>

definition handle_pagination :: "world \<Rightarrow> CallbackQuery \<Rightarrow> unit run" where
  "handle_pagination w callback =
     (case cb_message callback of
        Message _ \<Rightarrow>
          (case decode_pagination (int_beyond_ascii w) (cb_data callback) of
             Inl SegmentCount \<Rightarrow> log_error log_pagination_data None
           | Inl PageNumber \<Rightarrow> log_error log_page_number None
           | Inr (content_type, action, current_page) \<Rightarrow>
               try_except (pagination_body w callback content_type action current_page)
                 (pagination_except w (Some content_type)))
      | _ \<Rightarrow>
          try_except (call w (Answer (Some txt_message_not_found) True))
            (pagination_except w None))"

subsection \<open>A world for the scenarios\<close>

text \<open>
  One user, who owns the twelve rows of user 1 of the table above; no call raises. The two
  renderings of the runtime are left empty, and \<open>int\<close> rejects every string beyond ASCII.
\<close>

definition example_world :: world where
  "example_world =
     \<lparr> users = [\<lparr> u_id = 1, telegram_id = 100, username = None \<rparr>],
       history = example_table,
       fault = (\<lambda>_. None),
       str_float = (\<lambda>_. []),
       strftime = (\<lambda>_. []),
       int_beyond_ascii = (\<lambda>_. None),
       round_tenth = round_half_up_tenth \<rparr>"

definition example_callback :: "string \<Rightarrow> CallbackQuery" where
  "example_callback token =
     \<lparr> cb_message = Message None, cb_data = Some token, from_user_id = 100 \<rparr>"


fun is_edit :: "effect \<Rightarrow> bool" where
  "is_edit (EditText _ _) = True"
| "is_edit _ = False"

section \<open>The catalog client (app/kinopoisk_api.py)\<close>

subsection \<open>JSON values and the operations of Python on them\<close>

text \<open>
  What \<open>response.json()\<close> returns: a value of JSON as Python holds it. A dictionary is the
  list of its items; a key that occurs twice counts with its first item.
\<close>

datatype json =
    JNull
  | JBool bool
  | JInt int
  | JFloat real
  | JStr string
  | JList "json list"
  | JDict "(string \<times> json) list"

text \<open>\<open>v[key]\<close> for a string key: only a dictionary has string keys.\<close>

fun subscript :: "json \<Rightarrow> string \<Rightarrow> exn + json" where
  "subscript (JDict items) key =
     (case map_of items key of None \<Rightarrow> Inl KeyError | Some v \<Rightarrow> Inr v)"
| "subscript _ key = Inl TypeError"

text \<open>\<open>v.get(key, default)\<close>: only a dictionary has the method.\<close>

fun py_get :: "json \<Rightarrow> string \<Rightarrow> json \<Rightarrow> exn + json" where
  "py_get (JDict items) key dflt =
     (case map_of items key of None \<Rightarrow> Inr dflt | Some v \<Rightarrow> Inr v)"
| "py_get _ key dflt = Inl AttributeError"

text \<open>The truth test of \<open>if v\<close>.\<close>

fun truthy :: "json \<Rightarrow> bool" where
  "truthy JNull = False"
| "truthy (JBool b) = b"
| "truthy (JInt n) = (n \<noteq> 0)"
| "truthy (JFloat x) = (x \<noteq> 0)"
| "truthy (JStr s) = (s \<noteq> [])"
| "truthy (JList vs) = (vs \<noteq> [])"
| "truthy (JDict items) = (items \<noteq> [])"

text \<open>
  \<open>for x in v\<close>: the elements of a list, the keys of a dictionary, the characters of a
  string; nothing else is iterable.
\<close>

fun iterate :: "json \<Rightarrow> exn + json list" where
  "iterate (JList vs) = Inr vs"
| "iterate (JDict items) = Inr (map (\<lambda>(k, v). JStr k) items)"
| "iterate (JStr s) = Inr (map (\<lambda>c. JStr [c]) s)"
| "iterate _ = Inl TypeError"

text \<open>
  The renderings of the Python runtime that the client and the search handler use and that
  are taken as given: \<open>float(s)\<close> for a string (\<open>None\<close> for its \<open>ValueError\<close>) and
  \<open>str(v)\<close> for a value.
\<close>

record runtime =
  float_of_str :: "string \<Rightarrow> real option"
  str_of_json :: "json \<Rightarrow> string"

text \<open>\<open>float(v)\<close>, on the idealised reals.\<close>

fun py_float :: "runtime \<Rightarrow> json \<Rightarrow> exn + real" where
  "py_float rt (JInt n) = Inr (of_int n)"
| "py_float rt (JFloat x) = Inr x"
| "py_float rt (JBool b) = Inr (if b then 1 else 0)"
| "py_float rt (JStr s) = (case float_of_str rt s of None \<Rightarrow> Inl ValueError | Some x \<Rightarrow> Inr x)"
| "py_float rt _ = Inl TypeError"

text \<open>The first exception ends the evaluation.\<close>

definition then_sum :: "exn + 'a \<Rightarrow> ('a \<Rightarrow> exn + 'b) \<Rightarrow> exn + 'b" where
  "then_sum m f = (case m of Inl e \<Rightarrow> Inl e | Inr v \<Rightarrow> f v)"

text \<open>\<open>[x["name"] for x in v]\<close>.\<close>

fun names_of :: "json list \<Rightarrow> exn + json list" where
  "names_of [] = Inr []"
| "names_of (x # xs) =
     then_sum (subscript x ''name'') (\<lambda>n. then_sum (names_of xs) (\<lambda>ns. Inr (n # ns)))"

subsection \<open>The movie record\<close>

text \<open>
  The dataclass \<open>MovieInfo\<close>. Python does not check the annotations of a dataclass, so a
  field holds whatever value the response had; only \<open>rating\<close> is made by \<open>float\<close>. The
  fields \<open>id\<close> and \<open>type\<close> are called \<open>mi_id\<close> and \<open>mi_type\<close>; the two
  dictionaries \<open>votes\<close> and \<open>external_id\<close> are given by their items.
\<close>

record MovieInfo =
  mi_id :: json
  title :: json
  original_title :: json
  year :: json
  rating :: "real option"
  poster_url :: json
  description :: json
  short_description :: json
  genres :: "json list"
  countries :: "json list"
  movie_length :: json
  age_rating :: json
  mi_type :: json
  votes_kp :: json
  votes_imdb :: json
  external_id_imdb :: json

text \<open>\<open>a[k1][k2] if a.get(k1) else d\<close>.\<close>

definition nested_or :: "json \<Rightarrow> string \<Rightarrow> string \<Rightarrow> json \<Rightarrow> exn + json" where
  "nested_or film k1 k2 d =
     then_sum (py_get film k1 JNull)
       (\<lambda>g. if truthy g
             then then_sum (subscript film k1) (\<lambda>inner. subscript inner k2)
             else Inr d)"

text \<open>
  \<open>float(film["rating"]["kp"]) if film.get("rating", {}).get("kp") else None\<close>
  (lines 66 and 110).
\<close>

definition rating_of :: "runtime \<Rightarrow> json \<Rightarrow> exn + real option" where
  "rating_of rt film =
     then_sum (py_get film ''rating'' (JDict []))
       (\<lambda>r. then_sum (py_get r ''kp'' JNull)
          (\<lambda>kp. if truthy kp
                then then_sum (subscript film ''rating'')
                       (\<lambda>r'. then_sum (subscript r' ''kp'')
                          (\<lambda>kp'. then_sum (py_float rt kp') (\<lambda>x. Inr (Some x))))
                else Inr None))"

text \<open>
  The construction of the record, the same at lines 61 to 82 and at lines 105 to 126; the
  arguments are evaluated in the order in which they are written.
\<close>

definition movie_info :: "runtime \<Rightarrow> json \<Rightarrow> exn + MovieInfo" where
  "movie_info rt film =
     then_sum (subscript film ''id'') (\<lambda>v_id.
     then_sum (subscript film ''name'') (\<lambda>v_title.
     then_sum (py_get film ''alternativeName'' JNull) (\<lambda>v_original.
     then_sum (py_get film ''year'' JNull) (\<lambda>v_year.
     then_sum (rating_of rt film) (\<lambda>v_rating.
     then_sum (nested_or film ''poster'' ''url'' JNull) (\<lambda>v_poster.
     then_sum (py_get film ''description'' JNull) (\<lambda>v_description.
     then_sum (py_get film ''shortDescription'' JNull) (\<lambda>v_short.
     then_sum (then_sum (then_sum (py_get film ''genres'' (JList [])) iterate) names_of)
       (\<lambda>v_genres.
     then_sum (then_sum (then_sum (py_get film ''countries'' (JList [])) iterate) names_of)
       (\<lambda>v_countries.
     then_sum (py_get film ''movieLength'' JNull) (\<lambda>v_length.
     then_sum (py_get film ''ageRating'' JNull) (\<lambda>v_age.
     then_sum (py_get film ''type'' (JStr ''movie'')) (\<lambda>v_type.
     then_sum (nested_or film ''votes'' ''kp'' (JInt 0)) (\<lambda>v_votes_kp.
     then_sum (nested_or film ''votes'' ''imdb'' (JInt 0)) (\<lambda>v_votes_imdb.
     then_sum (nested_or film ''externalId'' ''imdb'' JNull) (\<lambda>v_imdb.
       Inr \<lparr> mi_id = v_id, title = v_title, original_title = v_original, year = v_year,
             rating = v_rating, poster_url = v_poster, description = v_description,
             short_description = v_short, genres = v_genres, countries = v_countries,
             movie_length = v_length, age_rating = v_age, mi_type = v_type,
             votes_kp = v_votes_kp, votes_imdb = v_votes_imdb,
             external_id_imdb = v_imdb \<rparr>))))))))))))))))"

subsection \<open>The two requests\<close>

text \<open>
  What a request to the catalog gives: an exception of the transport, or a response with
  its status and with what \<open>response.json()\<close> gives, a value or an exception.
\<close>

datatype http_result = TransportError exn | Response int "exn + json"

text \<open>Of lines 53 and 99: error of the catalog API, before the status.\<close>

definition log_api_status :: string where
  "log_api_status =
     [CHR 0xD0, CHR 0x9E, CHR 0xD1, CHR 0x88, CHR 0xD0, CHR 0xB8, CHR 0xD0, CHR 0xB1,
       CHR 0xD0, CHR 0xBA, CHR 0xD0, CHR 0xB0] @ '' API '' @ [CHR 0xD0, CHR 0x9A, CHR 0xD0,
       CHR 0xB8, CHR 0xD0, CHR 0xBD, CHR 0xD0, CHR 0xBE, CHR 0xD0, CHR 0xBF, CHR 0xD0,
       CHR 0xBE, CHR 0xD0, CHR 0xB8, CHR 0xD1, CHR 0x81, CHR 0xD0, CHR 0xBA, CHR 0xD0,
       CHR 0xB0] @ '': ''"

text \<open>Of lines 91 and 132: error in the request to the catalog API.\<close>

definition log_request_failed :: string where
  "log_request_failed =
     [CHR 0xD0, CHR 0x9E, CHR 0xD1, CHR 0x88, CHR 0xD0, CHR 0xB8, CHR 0xD0, CHR 0xB1,
       CHR 0xD0, CHR 0xBA, CHR 0xD0, CHR 0xB0] @ '' '' @ [CHR 0xD0, CHR 0xBF, CHR 0xD1,
       CHR 0x80, CHR 0xD0, CHR 0xB8] @ '' '' @ [CHR 0xD0, CHR 0xB7, CHR 0xD0, CHR 0xB0,
       CHR 0xD0, CHR 0xBF, CHR 0xD1, CHR 0x80, CHR 0xD0, CHR 0xBE, CHR 0xD1, CHR 0x81,
       CHR 0xD0, CHR 0xB5] @ '' '' @ [CHR 0xD0, CHR 0xBA] @ '' API '' @ [CHR 0xD0, CHR 0x9A,
       CHR 0xD0, CHR 0xB8, CHR 0xD0, CHR 0xBD, CHR 0xD0, CHR 0xBE, CHR 0xD0, CHR 0xBF,
       CHR 0xD0, CHR 0xBE, CHR 0xD0, CHR 0xB8, CHR 0xD1, CHR 0x81, CHR 0xD0, CHR 0xBA,
       CHR 0xD0, CHR 0xB0] @ '': ''"

text \<open>Of line 85: error while processing a film.\<close>

definition log_film_failed :: string where
  "log_film_failed =
     [CHR 0xD0, CHR 0x9E, CHR 0xD1, CHR 0x88, CHR 0xD0, CHR 0xB8, CHR 0xD0, CHR 0xB1,
       CHR 0xD0, CHR 0xBA, CHR 0xD0, CHR 0xB0] @ '' '' @ [CHR 0xD0, CHR 0xBF, CHR 0xD1,
       CHR 0x80, CHR 0xD0, CHR 0xB8] @ '' '' @ [CHR 0xD0, CHR 0xBE, CHR 0xD0, CHR 0xB1,
       CHR 0xD1, CHR 0x80, CHR 0xD0, CHR 0xB0, CHR 0xD0, CHR 0xB1, CHR 0xD0, CHR 0xBE,
       CHR 0xD1, CHR 0x82, CHR 0xD0, CHR 0xBA, CHR 0xD0, CHR 0xB5] @ '' '' @ [CHR 0xD1,
       CHR 0x84, CHR 0xD0, CHR 0xB8, CHR 0xD0, CHR 0xBB, CHR 0xD1, CHR 0x8C, CHR 0xD0,
       CHR 0xBC, CHR 0xD0, CHR 0xB0] @ '': ''"

text \<open>Of line 128: error while processing the details of a film.\<close>

definition log_details_failed :: string where
  "log_details_failed =
     [CHR 0xD0, CHR 0x9E, CHR 0xD1, CHR 0x88, CHR 0xD0, CHR 0xB8, CHR 0xD0, CHR 0xB1,
       CHR 0xD0, CHR 0xBA, CHR 0xD0, CHR 0xB0] @ '' '' @ [CHR 0xD0, CHR 0xBF, CHR 0xD1,
       CHR 0x80, CHR 0xD0, CHR 0xB8] @ '' '' @ [CHR 0xD0, CHR 0xBE, CHR 0xD0, CHR 0xB1,
       CHR 0xD1, CHR 0x80, CHR 0xD0, CHR 0xB0, CHR 0xD0, CHR 0xB1, CHR 0xD0, CHR 0xBE,
       CHR 0xD1, CHR 0x82, CHR 0xD0, CHR 0xBA, CHR 0xD0, CHR 0xB5] @ '' '' @ [CHR 0xD0,
       CHR 0xB4, CHR 0xD0, CHR 0xB5, CHR 0xD1, CHR 0x82, CHR 0xD0, CHR 0xB0, CHR 0xD0,
       CHR 0xBB, CHR 0xD0, CHR 0xB5, CHR 0xD0, CHR 0xB9] @ '' '' @ [CHR 0xD1, CHR 0x84,
       CHR 0xD0, CHR 0xB8, CHR 0xD0, CHR 0xBB, CHR 0xD1, CHR 0x8C, CHR 0xD0, CHR 0xBC,
       CHR 0xD0, CHR 0xB0] @ '': ''"

text \<open>
  The two \<open>except\<close> clauses. \<open>JSONDecodeError\<close> is a subclass of \<open>ValueError\<close>; the
  exceptions of aiohttp for a failed request and for a body of the wrong content type are
  \<open>ClientError\<close>.
\<close>

definition is_key_or_value_error :: "exn \<Rightarrow> bool" where
  "is_key_or_value_error e = (e = KeyError \<or> e = ValueError \<or> e = JSONDecodeError)"

definition except_client_error :: "string \<Rightarrow> 'a \<Rightarrow> exn \<Rightarrow> 'a run" where
  "except_client_error line fallback e =
     (if e = ClientError then ([LogError line (Some e)], Inr fallback) else raise e)"

text \<open>The loop of lines 59 to 86.\<close>

fun collect_movies :: "runtime \<Rightarrow> json list \<Rightarrow> MovieInfo list run" where
  "collect_movies rt [] = ret []"
| "collect_movies rt (film # films) =
     (case movie_info rt film of
        Inr movie \<Rightarrow> and_then (collect_movies rt films) (\<lambda>movies. ret (movie # movies))
      | Inl e \<Rightarrow>
          if is_key_or_value_error e
          then and_then (log_error log_film_failed (Some e)) (\<lambda>_. collect_movies rt films)
          else raise e)"

definition BASE_URL :: string where
  "BASE_URL = ''https://api.kinopoisk.dev/v1.4''"

text \<open>The request of \<open>session.get\<close> and what the catalog gives for it.\<close>

definition http_get :: "(string \<Rightarrow> (string \<times> string) list \<Rightarrow> http_result) \<Rightarrow> string
    \<Rightarrow> (string \<times> string) list \<Rightarrow> (int \<times> (exn + json)) run" where
  "http_get catalog url params =
     ([HttpGet url params],
      case catalog url params of TransportError e \<Rightarrow> Inl e | Response status body \<Rightarrow> Inr (status, body))"

text \<open>\<open>KinopoiskAPI.search_movie\<close> (lines 41 to 92), with the default page and limit.\<close>

definition search_movie ::
  "runtime \<Rightarrow> (string \<Rightarrow> (string \<times> string) list \<Rightarrow> http_result) \<Rightarrow> string
    \<Rightarrow> MovieInfo list run" where
  "search_movie rt catalog query_text =
     try_except
       (and_then
          (http_get catalog (BASE_URL @ ''/movie/search'')
             [(''query'', query_text), (''page'', str_int 1), (''limit'', str_int 10)])
          (\<lambda>(status, body).
             if status \<noteq> 200
             then and_then (log_error (log_api_status @ str_int status) None) (\<lambda>_. ret [])
             else (case body of
                     Inl e \<Rightarrow> raise e
                   | Inr data \<Rightarrow>
                       (case then_sum (py_get data ''docs'' (JList [])) iterate of
                          Inl e \<Rightarrow> raise e
                        | Inr films \<Rightarrow> collect_movies rt films))))
       (except_client_error log_request_failed [])"

text \<open>
  \<open>KinopoiskAPI.get_movie_details\<close> (lines 94 to 133); its argument \<open>movie_id\<close> is
  called \<open>film_id\<close>.
\<close>

definition get_movie_details ::
  "runtime \<Rightarrow> (string \<Rightarrow> (string \<times> string) list \<Rightarrow> http_result) \<Rightarrow> int
    \<Rightarrow> MovieInfo option run" where
  "get_movie_details rt catalog film_id =
     try_except
       (and_then (http_get catalog (BASE_URL @ ''/movie/'' @ str_int film_id) [])
          (\<lambda>(status, body).
             if status \<noteq> 200
             then and_then (log_error (log_api_status @ str_int status) None) (\<lambda>_. ret None)
             else (case body of
                     Inl e \<Rightarrow> raise e
                   | Inr film \<Rightarrow>
                       (case movie_info rt film of
                          Inr movie \<Rightarrow> ret (Some movie)
                        | Inl e \<Rightarrow>
                            if is_key_or_value_error e
                            then and_then (log_error log_details_failed (Some e)) (\<lambda>_. ret None)
                            else raise e))))
       (except_client_error log_request_failed None)"

subsection \<open>Responses for the scenarios\<close>

definition good_film :: json where
  "good_film = JDict [(''id'', JInt 301), (''name'', JStr ''Matrix''), (''year'', JInt 1999)]"

text \<open>A film whose field \<open>rating\<close> is \<open>null\<close>.\<close>

definition null_rating_film :: json where
  "null_rating_film = JDict [(''id'', JInt 302), (''name'', JStr ''Solaris''), (''rating'', JNull)]"

definition plain_runtime :: runtime where
  "plain_runtime = \<lparr> float_of_str = (\<lambda>_. None), str_of_json = (\<lambda>_. []) \<rparr>"

section \<open>The search handler (app/bot.py)\<close>

text \<open>Of line 69: error, the user could not be determined.\<close>

definition txt_no_user :: string where
  "txt_no_user =
     [CHR 0xD0, CHR 0x9E, CHR 0xD1, CHR 0x88, CHR 0xD0, CHR 0xB8, CHR 0xD0, CHR 0xB1,
       CHR 0xD0, CHR 0xBA, CHR 0xD0, CHR 0xB0] @ '': '' @ [CHR 0xD0, CHR 0xBD, CHR 0xD0,
       CHR 0xB5] @ '' '' @ [CHR 0xD1, CHR 0x83, CHR 0xD0, CHR 0xB4, CHR 0xD0, CHR 0xB0,
       CHR 0xD0, CHR 0xBB, CHR 0xD0, CHR 0xBE, CHR 0xD1, CHR 0x81, CHR 0xD1, CHR 0x8C]
       @ '' '' @ [CHR 0xD0, CHR 0xBE, CHR 0xD0, CHR 0xBF, CHR 0xD1, CHR 0x80, CHR 0xD0,
       CHR 0xB5, CHR 0xD0, CHR 0xB4, CHR 0xD0, CHR 0xB5, CHR 0xD0, CHR 0xBB, CHR 0xD0,
       CHR 0xB8, CHR 0xD1, CHR 0x82, CHR 0xD1, CHR 0x8C] @ '' '' @ [CHR 0xD0, CHR 0xBF,
       CHR 0xD0, CHR 0xBE, CHR 0xD0, CHR 0xBB, CHR 0xD1, CHR 0x8C, CHR 0xD0, CHR 0xB7,
       CHR 0xD0, CHR 0xBE, CHR 0xD0, CHR 0xB2, CHR 0xD0, CHR 0xB0, CHR 0xD1, CHR 0x82,
       CHR 0xD0, CHR 0xB5, CHR 0xD0, CHR 0xBB, CHR 0xD1, CHR 0x8F]"

text \<open>Of line 76: nothing was found for the query.\<close>

definition txt_nothing_found :: string where
  "txt_nothing_found =
     [CHR 0xD0, CHR 0x9F, CHR 0xD0, CHR 0xBE] @ '' '' @ [CHR 0xD0, CHR 0xB2, CHR 0xD0,
       CHR 0xB0, CHR 0xD1, CHR 0x88, CHR 0xD0, CHR 0xB5, CHR 0xD0, CHR 0xBC, CHR 0xD1,
       CHR 0x83] @ '' '' @ [CHR 0xD0, CHR 0xB7, CHR 0xD0, CHR 0xB0, CHR 0xD0, CHR 0xBF,
       CHR 0xD1, CHR 0x80, CHR 0xD0, CHR 0xBE, CHR 0xD1, CHR 0x81, CHR 0xD1, CHR 0x83]
       @ '' '' @ [CHR 0xD0, CHR 0xBD, CHR 0xD0, CHR 0xB8, CHR 0xD1, CHR 0x87, CHR 0xD0,
       CHR 0xB5, CHR 0xD0, CHR 0xB3, CHR 0xD0, CHR 0xBE] @ '' '' @ [CHR 0xD0, CHR 0xBD,
       CHR 0xD0, CHR 0xB5] @ '' '' @ [CHR 0xD0, CHR 0xBD, CHR 0xD0, CHR 0xB0, CHR 0xD0,
       CHR 0xB9, CHR 0xD0, CHR 0xB4, CHR 0xD0, CHR 0xB5, CHR 0xD0, CHR 0xBD, CHR 0xD0,
       CHR 0xBE] @ '' '' @ [CHR 0xF0, CHR 0x9F, CHR 0x98, CHR 0x94]"

text \<open>Of line 96: choose a film from the list.\<close>

definition txt_choose_film :: string where
  "txt_choose_film =
     [CHR 0xD0, CHR 0x92, CHR 0xD1, CHR 0x8B, CHR 0xD0, CHR 0xB1, CHR 0xD0, CHR 0xB5,
       CHR 0xD1, CHR 0x80, CHR 0xD0, CHR 0xB8, CHR 0xD1, CHR 0x82, CHR 0xD0, CHR 0xB5]
       @ '' '' @ [CHR 0xD1, CHR 0x84, CHR 0xD0, CHR 0xB8, CHR 0xD0, CHR 0xBB, CHR 0xD1,
       CHR 0x8C, CHR 0xD0, CHR 0xBC] @ '' '' @ [CHR 0xD0, CHR 0xB8, CHR 0xD0, CHR 0xB7]
       @ '' '' @ [CHR 0xD1, CHR 0x81, CHR 0xD0, CHR 0xBF, CHR 0xD0, CHR 0xB8, CHR 0xD1,
       CHR 0x81, CHR 0xD0, CHR 0xBA, CHR 0xD0, CHR 0xB0] @ '':''"

text \<open>Of line 85.\<close>

definition txt_star :: string where
  "txt_star =
     '' '' @ [CHR 0xF0, CHR 0x9F, CHR 0xA4, CHR 0xA9]"

text \<open>Of line 87.\<close>

definition txt_series :: string where
  "txt_series =
     '' '' @ [CHR 0xF0, CHR 0x9F, CHR 0x93, CHR 0xBA]"

text \<open>
  An inbound text message: the sender (Telegram id and user name), if there is one, and
  the text.
\<close>

record TgMessage =
  msg_from_user :: "(int \<times> string option) option"
  msg_text :: string

text \<open>
  \<open>CinemaBot._get_or_create_user\<close> (lines 32 to 41) for a sender that is present: the call
  of the store. The row that the store may insert is not read again by the handler.
\<close>

definition get_or_create_user :: "world \<Rightarrow> int \<Rightarrow> string option \<Rightarrow> unit run" where
  "get_or_create_user w tid uname = call w (GetOrCreateUser tid uname)"

text \<open>The button of one film (lines 81 to 92).\<close>

definition movie_button :: "runtime \<Rightarrow> world \<Rightarrow> MovieInfo \<Rightarrow> button" where
  "movie_button rt w movie =
     \<lparr> btn_text =
         str_of_json rt (title movie)
         @ (if truthy (year movie) then '' ('' @ str_of_json rt (year movie) @ '')'' else [])
         @ (case rating movie of
              None \<Rightarrow> []
            | Some r \<Rightarrow> if r \<noteq> 0 then txt_star @ str_float w r else [])
         @ (if mi_type movie = JStr ''tv-series'' then txt_series else []),
       callback_data = ''movie_'' @ str_of_json rt (mi_id movie) \<rparr>"

text \<open>
  \<open>CinemaBot.handle_search\<close> (lines 67 to 98). There is no \<open>try\<close> in it: an exception of
  any call leaves the handler.
\<close>

definition handle_search ::
  "runtime \<Rightarrow> world \<Rightarrow> (string \<Rightarrow> (string \<times> string) list \<Rightarrow> http_result) \<Rightarrow> TgMessage
    \<Rightarrow> unit run" where
  "handle_search rt w catalog message =
     (case msg_from_user message of
        None \<Rightarrow> call w (MessageAnswer txt_no_user [])
      | Some (tid, uname) \<Rightarrow>
          and_then (get_or_create_user w tid uname)
            (\<lambda>_. and_then (search_movie rt catalog (msg_text message))
               (\<lambda>movies.
                  if movies = [] then call w (MessageAnswer txt_nothing_found [])
                  else call w (MessageAnswer txt_choose_film
                                 (map (movie_button rt w) (take 5 movies))))))"

subsection \<open>Worlds in which a collaborator fails\<close>

text \<open>Every call of the store raises.\<close>

fun store_down :: "effect \<Rightarrow> exn option" where
  "store_down (GetUserByTelegramId _) = Some DatabaseError"
| "store_down (GetOrCreateUser _ _) = Some DatabaseError"
| "store_down (GetUserHistory _ _) = Some DatabaseError"
| "store_down (GetUserStats _ _) = Some DatabaseError"
| "store_down _ = None"

text \<open>Every call of Telegram raises.\<close>

fun telegram_down :: "effect \<Rightarrow> exn option" where
  "telegram_down (Answer _ _) = Some TelegramError"
| "telegram_down (EditText _ _) = Some TelegramError"
| "telegram_down (MessageAnswer _ _) = Some TelegramError"
| "telegram_down _ = None"

section \<open>Properties of the history store\<close>

subsection \<open>Page counts\<close>

lemma ceil_div_int:
  fixes a b :: int
  assumes "0 < b"
  shows "(a + b - 1) div b = \<lceil>real_of_int a / real_of_int b\<rceil>"
proof -
  have "(a + b - 1) div b = - (- a div b)"
  proof -
    have "a + b - 1 = (- (- a)) + b - 1" by simp
    obtain q r where qr: "- a = q * b + r" "0 \<le> r" "r < b"
      using assms by (metis mult.commute pos_mod_bound pos_mod_sign mult_div_mod_eq)
    have d1: "- a div b = q"
      using qr assms by (metis add.commute div_mult_self1 div_pos_pos_trivial less_irrefl add.right_neutral)
    have "a + b - 1 = (- q) * b + (b - 1 - r)" using qr(1) by (simp add: algebra_simps)
    moreover have "0 \<le> b - 1 - r" "b - 1 - r < b" using qr by auto
    ultimately have "(a + b - 1) div b = - q"
      using assms by (metis add.commute div_mult_self1 div_pos_pos_trivial less_irrefl add.right_neutral)
    with d1 show ?thesis by simp
  qed
  then show ?thesis by (simp add: ceiling_divide_eq_div)
qed

lemma length_order_by_id_desc: "length (order_by_id_desc rows) = length rows"
  by (simp add: order_by_id_desc_def)

lemma length_stats_subquery:
  "length (stats_subquery tbl uid) = card (group_key ` set (rows_of_user tbl uid))"
  by (simp add: stats_subquery_def Let_def length_remdups_card_conv)

lemma stats_subquery_empty: "rows_of_user tbl uid = [] \<Longrightarrow> stats_subquery tbl uid = []"
  by (simp add: stats_subquery_def)

text \<open>
  Claim C1. For a count of at least zero and a page size of at least one, the page count
  of lines 101 and 138 is the larger of one and the ceiling of the quotient.
  \<open>get_user_history\<close> returns it for the number of the user's rows, \<open>get_user_stats\<close> for
  the number of the user's distinct groups; a user without rows gets, on page one, an
  empty list and a page count of one from both.
\<close>

theorem total_pages_is_ceiling:
  assumes "0 \<le> total_count" and "1 \<le> per_page"
  shows "total_pages_of total_count per_page
           = max 1 \<lceil>real_of_int total_count / real_of_int per_page\<rceil>
       \<and> (\<exists>items. get_user_history tbl uid page per_page
             = Inr (items, max 1 \<lceil>real (length (rows_of_user tbl uid)) / real_of_int per_page\<rceil>))
       \<and> (\<exists>items. get_user_stats rnd tbl uid page per_page
             = Inr (items, max 1 \<lceil>real (card (group_key ` set (rows_of_user tbl uid)))
                                      / real_of_int per_page\<rceil>))
       \<and> (rows_of_user tbl uid = [] \<longrightarrow>
             get_user_history tbl uid 1 per_page = Inr ([], 1)
           \<and> get_user_stats rnd tbl uid 1 per_page = Inr ([], 1))"
proof -
  have pos: "0 < per_page" and nz: "per_page \<noteq> 0" using assms(2) by auto
  have tp: "total_pages_of n per_page = max 1 \<lceil>real_of_int n / real_of_int per_page\<rceil>" for n
    unfolding total_pages_of_def using ceil_div_int [OF pos, of n] by simp
  have one: "total_pages_of 0 per_page = 1"
    using pos by (simp add: total_pages_of_def div_pos_pos_trivial)
  have h: "\<exists>items. get_user_history tbl uid page per_page
             = Inr (items, max 1 \<lceil>real (length (rows_of_user tbl uid)) / real_of_int per_page\<rceil>)"
    using nz tp [of "int (length (rows_of_user tbl uid))"]
    by (simp add: get_user_history_def Let_def)
  have s: "\<exists>items. get_user_stats rnd tbl uid page per_page
             = Inr (items, max 1 \<lceil>real (card (group_key ` set (rows_of_user tbl uid)))
                                      / real_of_int per_page\<rceil>)"
    using nz tp [of "int (length (stats_subquery tbl uid))"]
    by (simp add: get_user_stats_def Let_def length_stats_subquery)
  have e: "get_user_history tbl uid 1 per_page = Inr ([], 1)
         \<and> get_user_stats rnd tbl uid 1 per_page = Inr ([], 1)"
    if "rows_of_user tbl uid = []"
    using that nz one
    by (simp add: get_user_history_def get_user_stats_def Let_def stats_subquery_empty
        order_by_id_desc_def order_by_count_desc_def sql_limit_def sql_offset_def)
  show ?thesis using tp [of total_count] h s e by blast
qed

theorem total_pages_is_ceiling_witness:
  "(0::int) \<le> 12 \<and> (1::int) \<le> 5 \<and> rows_of_user [] 7 = []
   \<and> total_pages_of 12 5 = 3
   \<and> get_user_history [] 7 1 5 = Inr ([], 1)
   \<and> get_user_stats round_half_up_tenth [] 7 1 5 = Inr ([], 1)"
proof -
  have c: "\<lceil>(12::real) / 5\<rceil> = 3" by simp
  have r: "rows_of_user [] 7 = []" by (simp add: rows_of_user_def)
  show ?thesis
    using total_pages_is_ceiling [of 12 5 "[]" 7 1] c r by simp
qed

subsection \<open>The window of get_user_history\<close>

lemma order_by_id_desc_sorted: "sorted (rev (map row_id (order_by_id_desc rows)))"
  by (simp add: order_by_id_desc_def rev_map)

lemma order_by_id_desc_mset: "mset (order_by_id_desc rows) = mset rows"
  by (simp add: order_by_id_desc_def)

lemma get_user_history_window:
  assumes "1 \<le> page" and "1 \<le> per_page"
  shows "get_user_history tbl uid page per_page
    = Inr (take (nat per_page)
             (drop (nat ((page - 1) * per_page)) (order_by_id_desc (rows_of_user tbl uid))),
           total_pages_of (int (length (rows_of_user tbl uid))) per_page)"
  using assms by (simp add: get_user_history_def sql_limit_def sql_offset_def Let_def)

text \<open>
  Claim C6. The user's rows in the order of descending id are a rearrangement of the
  user's rows, and for a page and a page size of at least one \<open>get_user_history\<close> returns
  the rows from position \<open>(page - 1) * per_page\<close> up to \<open>page * per_page\<close> of that
  sequence. With twelve rows and five per page: page 1 is the first five rows of the
  sequence (the five largest ids), page 3 the last two, page 4 is empty, and the page
  count is 3 each time.
\<close>

theorem history_pages_of_twelve_rows:
  "sorted (rev (map row_id (order_by_id_desc (rows_of_user tbl uid))))
   \<and> mset (order_by_id_desc (rows_of_user tbl uid)) = mset (rows_of_user tbl uid)
   \<and> (1 \<le> page \<and> 1 \<le> per_page \<longrightarrow>
        get_user_history tbl uid page per_page
          = Inr (take (nat per_page)
                   (drop (nat ((page - 1) * per_page)) (order_by_id_desc (rows_of_user tbl uid))),
                 total_pages_of (int (length (rows_of_user tbl uid))) per_page))
   \<and> (length (rows_of_user tbl uid) = 12 \<longrightarrow>
        get_user_history tbl uid 1 5 = Inr (take 5 (order_by_id_desc (rows_of_user tbl uid)), 3)
      \<and> length (take 5 (order_by_id_desc (rows_of_user tbl uid))) = 5
      \<and> get_user_history tbl uid 3 5 = Inr (drop 10 (order_by_id_desc (rows_of_user tbl uid)), 3)
      \<and> length (drop 10 (order_by_id_desc (rows_of_user tbl uid))) = 2
      \<and> get_user_history tbl uid 4 5 = Inr ([], 3))"
proof -
  let ?S = "order_by_id_desc (rows_of_user tbl uid)"
  have len: "length ?S = length (rows_of_user tbl uid)"
    by (rule length_order_by_id_desc)
  have twelve: "get_user_history tbl uid 1 5 = Inr (take 5 ?S, 3)
      \<and> length (take 5 ?S) = 5
      \<and> get_user_history tbl uid 3 5 = Inr (drop 10 ?S, 3)
      \<and> length (drop 10 ?S) = 2
      \<and> get_user_history tbl uid 4 5 = Inr ([], 3)"
    if n: "length (rows_of_user tbl uid) = 12"
  proof -
    have tp: "total_pages_of 12 5 = 3" by (simp add: total_pages_of_def)
    have p1: "get_user_history tbl uid 1 5 = Inr (take 5 ?S, 3)"
      using get_user_history_window [of 1 5 tbl uid] n tp by simp
    have p3: "get_user_history tbl uid 3 5 = Inr (drop 10 ?S, 3)"
      using get_user_history_window [of 3 5 tbl uid] n tp len by simp
    have p4: "get_user_history tbl uid 4 5 = Inr ([], 3)"
      using get_user_history_window [of 4 5 tbl uid] n tp len by simp
    show ?thesis using p1 p3 p4 len n by simp
  qed
  show ?thesis
    using order_by_id_desc_sorted [of "rows_of_user tbl uid"]
      order_by_id_desc_mset [of "rows_of_user tbl uid"]
      get_user_history_window [of page per_page tbl uid] twelve
    by blast
qed

lemma example_table_rows:
  "map row_id (order_by_id_desc (rows_of_user example_table 1))
     = [14, 13, 12, 11, 10, 8, 7, 6, 5, 4, 3, 1]"
  by (simp add: example_table_def example_row_def rows_of_user_def order_by_id_desc_def)

theorem history_pages_of_twelve_rows_witness:
  "length (rows_of_user example_table 1) = 12 \<and> (1::int) \<le> 2 \<and> (1::int) \<le> 5
   \<and> map_sum (\<lambda>e. e) (\<lambda>(items, n). (map row_id items, n)) (get_user_history example_table 1 1 5)
       = Inr ([14, 13, 12, 11, 10], 3)
   \<and> map_sum (\<lambda>e. e) (\<lambda>(items, n). (map row_id items, n)) (get_user_history example_table 1 2 5)
       = Inr ([8, 7, 6, 5, 4], 3)
   \<and> map_sum (\<lambda>e. e) (\<lambda>(items, n). (map row_id items, n)) (get_user_history example_table 1 3 5)
       = Inr ([3, 1], 3)
   \<and> get_user_history example_table 1 4 5 = Inr ([], 3)"
proof -
  have n: "length (rows_of_user example_table 1) = 12"
    by (simp add: example_table_def example_row_def rows_of_user_def)
  have tp: "total_pages_of 12 5 = 3" by (simp add: total_pages_of_def)
  note t = history_pages_of_twelve_rows [of example_table 1 2 5]
  have p2: "get_user_history example_table 1 2 5
      = Inr (take 5 (drop 5 (order_by_id_desc (rows_of_user example_table 1))), 3)"
    using t n tp by simp
  show ?thesis
    using t n p2 example_table_rows
    by (simp add: take_map [symmetric] drop_map [symmetric])
qed

subsection \<open>The aggregates of get_user_stats\<close>














lemma get_user_stats_window:
  assumes "1 \<le> page" and "1 \<le> per_page"
  shows "get_user_stats rnd tbl uid page per_page
    = Inr (map (stats_dict rnd) (take (nat per_page)
             (drop (nat ((page - 1) * per_page)) (order_by_count_desc (stats_subquery tbl uid)))),
           total_pages_of (int (length (stats_subquery tbl uid))) per_page)"
  using assms by (simp add: get_user_stats_def sql_limit_def sql_offset_def Let_def)





section \<open>Properties of the tokens\<close>

subsection \<open>Encoding and decoding\<close>

lemma of_char_digit_char: "d < 10 \<Longrightarrow> (of_char (digit_char d) :: nat) = 48 + d"
  by (simp add: digit_char_def)

lemma is_digit_digit_char: "d < 10 \<Longrightarrow> is_digit (digit_char d)"
  by (simp add: is_digit_def of_char_digit_char)

lemma digit_value_digit_char: "d < 10 \<Longrightarrow> digit_value (digit_char d) = d"
  by (simp add: digit_value_def of_char_digit_char)

lemma digits_of_all_digits: "\<forall>c \<in> set (digits_of n). is_digit c"
proof (induction n rule: digits_of.induct)
  case (1 n)
  show ?case
  proof (cases "n < 10")
    case True
    then show ?thesis by (simp add: digits_of.simps [of n] is_digit_digit_char)
  next
    case False
    then show ?thesis
      using 1 by (simp add: digits_of.simps [of n] is_digit_digit_char)
  qed
qed

lemma digits_of_nonempty: "digits_of n \<noteq> []"
  by (simp add: digits_of.simps [of n])

lemma digits_value_snoc:
  "is_digit c \<Longrightarrow> digits_value (ds @ [c]) = 10 * digits_value ds + digit_value c"
  by (simp add: digits_value_def)

lemma digits_value_digits_of: "digits_value (digits_of n) = n"
proof (induction n rule: digits_of.induct)
  case (1 n)
  show ?case
  proof (cases "n < 10")
    case True
    then show ?thesis
      by (simp add: digits_of.simps [of n] digits_value_def is_digit_digit_char
          digit_value_digit_char)
  next
    case False
    then have "digits_value (digits_of n) = 10 * (n div 10) + n mod 10"
      using 1 by (simp add: digits_of.simps [of n] digits_value_snoc is_digit_digit_char
          digit_value_digit_char)
    then show ?thesis by simp
  qed
qed

lemma digits_tail_all_digits: "\<forall>c \<in> set cs. is_digit c \<Longrightarrow> digits_tail cs"
  by (induction cs) auto

lemma valid_digits_all_digits: "ds \<noteq> [] \<Longrightarrow> \<forall>c \<in> set ds. is_digit c \<Longrightarrow> valid_digits ds"
  by (cases ds) (simp_all add: valid_digits_def digits_tail_all_digits)

lemma is_digit_not_space: "is_digit c \<Longrightarrow> \<not> is_space c"
  by (auto simp: is_digit_def is_space_def)

lemma strip_id:
  assumes "s \<noteq> []" and "\<not> is_space (hd s)" and "\<not> is_space (last s)"
  shows "strip s = s"
proof -
  have a: "dropWhile is_space s = s"
    using assms(1,2) by (cases s) simp_all
  have b: "dropWhile is_space (rev s) = rev s"
    using assms(1,3) by (cases "rev s") (simp_all add: last_rev [symmetric] hd_rev)
  show ?thesis by (simp add: strip_def a b)
qed

lemma ascii_int_digits:
  assumes "ds \<noteq> []" and "\<forall>c \<in> set ds. is_digit c"
  shows "ascii_int ds = Some (int (digits_value ds))" and "ascii_int (CHR ''-'' # ds) = Some (- int (digits_value ds))"
proof -
  have h: "is_digit (hd ds)" and l: "is_digit (last ds)"
    using assms by simp_all
  have s1: "strip ds = ds"
    using assms(1) h l by (intro strip_id) (simp_all add: is_digit_not_space)
  have nm: "hd ds \<noteq> CHR ''-''" "hd ds \<noteq> CHR ''+''"
    using h by (auto simp: is_digit_def)
  obtain c cs where ds: "ds = c # cs" using assms(1) by (cases ds) auto
  show "ascii_int ds = Some (int (digits_value ds))"
    using s1 nm valid_digits_all_digits [OF assms] ds
    by (simp add: ascii_int_def Let_def)
  have ms: "\<not> is_space (CHR ''-'')" by (simp add: is_space_def)
  have ls: "\<not> is_space (last ds)" using l by (rule is_digit_not_space)
  have s2: "strip (CHR ''-'' # ds) = CHR ''-'' # ds"
    using assms(1) ms ls by (intro strip_id) simp_all
  show "ascii_int (CHR ''-'' # ds) = Some (- int (digits_value ds))"
    using s2 valid_digits_all_digits [OF assms]
    by (simp add: ascii_int_def Let_def)
qed

lemma ascii_int_str_int: "ascii_int (str_int i) = Some i"
  using ascii_int_digits [OF digits_of_nonempty digits_of_all_digits, of "nat i"]
    ascii_int_digits [OF digits_of_nonempty digits_of_all_digits, of "nat (- i)"]
  by (simp add: str_int_def digits_value_digits_of)

lemma is_digit_ascii: "is_digit c \<Longrightarrow> is_ascii c"
  by (simp add: is_digit_def is_ascii_def)

lemma str_int_ascii: "list_all is_ascii (str_int i)"
  using digits_of_all_digits is_digit_ascii
  by (auto simp: str_int_def list_all_iff is_ascii_def)

lemma py_int_str_int: "py_int beyond_ascii (str_int i) = Some i"
  by (simp add: py_int_def str_int_ascii ascii_int_str_int)

lemma underscore_not_digit: "\<not> is_digit (CHR ''_'')"
  by (simp add: is_digit_def)

lemma str_int_no_underscore: "CHR ''_'' \<notin> set (str_int i)"
  using digits_of_all_digits underscore_not_digit
  by (auto simp: str_int_def)

lemma split_on_no_sep: "sep \<notin> set s \<Longrightarrow> split_on sep s = [s]"
  by (induction s) auto

lemma split_on_append: "sep \<notin> set a \<Longrightarrow> split_on sep (a @ sep # rest) = a # split_on sep rest"
  by (induction a) auto

lemma split_pagination_token:
  assumes "CHR ''_'' \<notin> set content_type" and "CHR ''_'' \<notin> set action"
  shows "split_on CHR ''_'' (pagination_token content_type action current_page)
     = [''pagination'', content_type, action, str_int current_page]"
proof -
  have p: "CHR ''_'' \<notin> set ''pagination''" by simp
  have "split_on CHR ''_'' (''pagination'' @ CHR ''_'' # (content_type @ CHR ''_''
           # (action @ CHR ''_'' # str_int current_page)))
     = [''pagination'', content_type, action, str_int current_page]"
    by (simp only: split_on_append [OF p] split_on_append [OF assms(1)]
        split_on_append [OF assms(2)] split_on_no_sep [OF str_int_no_underscore])
  then show ?thesis by (simp add: pagination_token_def)
qed

lemma decode_pagination_token:
  assumes "CHR ''_'' \<notin> set content_type" and "CHR ''_'' \<notin> set action"
  shows "decode_pagination uni (Some (pagination_token content_type action current_page))
     = Inr (content_type, action, current_page)"
  using split_pagination_token [OF assms, of current_page]
  by (simp add: decode_pagination_def Let_def py_int_str_int)

lemma keyword_no_underscore:
  "k \<in> {''history'', ''stats'', ''next'', ''prev''} \<Longrightarrow> CHR ''_'' \<notin> set k"
  by auto

lemma digit_chars:
  "digit_char 0 = CHR ''0''" "digit_char 1 = CHR ''1''" "digit_char 2 = CHR ''2''"
  "digit_char 3 = CHR ''3''" "digit_char 4 = CHR ''4''" "digit_char 5 = CHR ''5''"
  "digit_char 6 = CHR ''6''" "digit_char 7 = CHR ''7''" "digit_char 8 = CHR ''8''"
  "digit_char 9 = CHR ''9''"
  by code_simp+

lemma keyboard_tokens:
  assumes "b \<in> set (get_pagination_keyboard content_type current_page total_pages)"
  shows "callback_data b = pagination_token content_type ''prev'' current_page
       \<or> callback_data b = pagination_token content_type ''next'' current_page"
  using assms by (auto simp: get_pagination_keyboard_def split: if_splits)

text \<open>
  Claim C2. For a content kind of \<open>history\<close> or \<open>stats\<close>, a direction of \<open>next\<close> or \<open>prev\<close>
  and a positive page, the token \<open>pagination_{kind}_{direction}_{page}\<close> splits into four
  segments at the underscores, and the decoding of \<open>handle_pagination\<close> gives back the
  kind, the direction and the page. Every button of the keyboard of that kind and page
  carries such a token.
\<close>

theorem pagination_token_roundtrip:
  assumes "content_kind \<in> {''history'', ''stats''}"
    and "direction \<in> {''next'', ''prev''}"
    and "0 < current_page"
  shows "split_on CHR ''_'' (pagination_token content_kind direction current_page)
           = [''pagination'', content_kind, direction, str_int current_page]
       \<and> decode_pagination uni (Some (pagination_token content_kind direction current_page))
           = Inr (content_kind, direction, current_page)
       \<and> (\<forall>b \<in> set (get_pagination_keyboard content_kind current_page total_pages).
            \<exists>d \<in> {''next'', ''prev''}.
              callback_data b = pagination_token content_kind d current_page
            \<and> decode_pagination uni (Some (callback_data b)) = Inr (content_kind, d, current_page))"
proof -
  have k: "CHR ''_'' \<notin> set content_kind"
    using assms(1) by (intro keyword_no_underscore) auto
  have d: "CHR ''_'' \<notin> set direction"
    using assms(2) by (intro keyword_no_underscore) auto
  have n: "CHR ''_'' \<notin> set ''next''" and p: "CHR ''_'' \<notin> set ''prev''" by simp_all
  have btn: "\<exists>d \<in> {''next'', ''prev''}.
              callback_data b = pagination_token content_kind d current_page
            \<and> decode_pagination uni (Some (callback_data b)) = Inr (content_kind, d, current_page)"
    if "b \<in> set (get_pagination_keyboard content_kind current_page total_pages)" for b
    using keyboard_tokens [OF that] decode_pagination_token [OF k n, of uni current_page]
      decode_pagination_token [OF k p, of uni current_page]
    by auto
  show ?thesis
    using split_pagination_token [OF k d, of current_page]
      decode_pagination_token [OF k d, of uni current_page] btn
    by blast
qed

theorem pagination_token_roundtrip_witness:
  "''history'' \<in> {''history'', ''stats''} \<and> ''next'' \<in> {''next'', ''prev''} \<and> (0::int) < 3
   \<and> set (get_pagination_keyboard ''history'' 3 5) \<noteq> {}
   \<and> pagination_token ''history'' ''next'' 3 = ''pagination_history_next_3''
   \<and> decode_pagination (int_beyond_ascii example_world) (Some ''pagination_history_next_3'')
       = Inr (''history'', ''next'', 3)"
proof -
  have t: "pagination_token ''history'' ''next'' 3 = ''pagination_history_next_3''"
    by (simp add: pagination_token_def str_int_def digits_of.simps digit_chars)
  have k: "set (get_pagination_keyboard ''history'' 3 5) \<noteq> {}"
    by (simp add: get_pagination_keyboard_def)
  have h: "''history'' \<in> {''history'', ''stats''}" "''next'' \<in> {''next'', ''prev''}" "(0::int) < 3"
    by simp_all
  have "decode_pagination (int_beyond_ascii example_world)
          (Some (pagination_token ''history'' ''next'' 3))
      = Inr (''history'', ''next'', 3)"
    using pagination_token_roundtrip [OF h, of "int_beyond_ascii example_world" 5] by blast
  then have d: "decode_pagination (int_beyond_ascii example_world)
          (Some ''pagination_history_next_3'')
      = Inr (''history'', ''next'', 3)"
    by (simp only: t)
  show ?thesis using h t k d by blast
qed

subsection \<open>The buttons of the keyboard\<close>

lemma labels_differ: "label_back \<noteq> label_forward"
  by (simp add: label_back_def label_forward_def)

text \<open>
  Claim C8. For a current page and a page count of at least one, the keyboard has no
  button labelled back on page one and exactly one, carrying the \<open>prev\<close> token of the
  page, on a later page; it has no button labelled forward on the last page or beyond it
  and exactly one, carrying the \<open>next\<close> token of the page, before the last page.
\<close>

theorem keyboard_buttons_by_position:
  assumes "1 \<le> current_page" and "1 \<le> total_pages"
  shows "(current_page = 1 \<longrightarrow>
            filter (\<lambda>b. btn_text b = label_back)
              (get_pagination_keyboard content_type current_page total_pages) = [])
       \<and> (1 < current_page \<longrightarrow>
            filter (\<lambda>b. btn_text b = label_back)
              (get_pagination_keyboard content_type current_page total_pages)
            = [\<lparr> btn_text = label_back,
                 callback_data = pagination_token content_type ''prev'' current_page \<rparr>])
       \<and> (total_pages \<le> current_page \<longrightarrow>
            filter (\<lambda>b. btn_text b = label_forward)
              (get_pagination_keyboard content_type current_page total_pages) = [])
       \<and> (current_page < total_pages \<longrightarrow>
            filter (\<lambda>b. btn_text b = label_forward)
              (get_pagination_keyboard content_type current_page total_pages)
            = [\<lparr> btn_text = label_forward,
                 callback_data = pagination_token content_type ''next'' current_page \<rparr>])"
  using labels_differ labels_differ [symmetric]
  by (simp add: get_pagination_keyboard_def)

theorem keyboard_buttons_by_position_witness:
  "(1::int) \<le> 1 \<and> (1::int) \<le> 2 \<and> (1::int) < 2 \<and> (1::int) \<le> 3 \<and> (2::int) < 3
   \<and> map callback_data (get_pagination_keyboard ''stats'' 1 1) = []
   \<and> map callback_data (filter (\<lambda>b. btn_text b = label_back)
        (get_pagination_keyboard ''stats'' 2 3)) = [''pagination_stats_prev_2'']
   \<and> map callback_data (filter (\<lambda>b. btn_text b = label_forward)
        (get_pagination_keyboard ''stats'' 2 3)) = [''pagination_stats_next_2'']"
proof -
  have t: "pagination_token ''stats'' ''prev'' 2 = ''pagination_stats_prev_2''"
    "pagination_token ''stats'' ''next'' 2 = ''pagination_stats_next_2''"
    by (simp_all add: pagination_token_def str_int_def digits_of.simps digit_chars)
  have e: "get_pagination_keyboard ''stats'' 1 1 = []"
    by (simp add: get_pagination_keyboard_def)
  show ?thesis
    using keyboard_buttons_by_position [of 1 1 "''stats''"]
      keyboard_buttons_by_position [of 2 3 "''stats''"] t e
    by simp
qed

section \<open>Properties of the pagination handler\<close>

subsection \<open>Runs\<close>

lemma set_try_except:
  "set (fst (try_except m h))
     = set (fst m) \<union> (case snd m of Inl e \<Rightarrow> set (fst (h e)) | Inr _ \<Rightarrow> {})"
  by (cases m) (auto simp: try_except_def split: sum.splits prod.splits)

lemma set_pagination_except:
  "set (fst (pagination_except w b e)) \<subseteq> {LogError line x | line x. True} \<union> {Answer (Some txt_update_error) True}"
  by (auto simp: pagination_except_def raise_def and_then_def log_error_def call_def
      split: option.splits)

lemma no_edit_in_except: "EditText txt kb \<notin> set (fst (pagination_except w b e))"
  using set_pagination_except [of w b e] by auto

subsection \<open>Empty pages\<close>

lemma set_fst_and_then_unit:
  "set (fst (and_then (t, Inr v) f)) = set t \<union> set (fst (f v))"
  by (simp add: and_then_def split: prod.splits)

lemma handle_pagination_decoded:
  assumes "cb_message cb = Message t"
    and "decode_pagination (int_beyond_ascii w) (cb_data cb) = Inr (ct, action, p)"
  shows "handle_pagination w cb
     = try_except (pagination_body w cb ct action p) (pagination_except w (Some ct))"
  using assms by (simp add: handle_pagination_def)

lemma edits_of_handler:
  assumes "cb_message cb = Message t"
    and "decode_pagination (int_beyond_ascii w) (cb_data cb) = Inr (ct, action, p)"
  shows "EditText txt kb \<in> set (fst (handle_pagination w cb))
     \<longleftrightarrow> EditText txt kb \<in> set (fst (pagination_body w cb ct action p))"
  unfolding handle_pagination_decoded [OF assms] set_try_except
  using no_edit_in_except [of "txt" kb w "Some ct"]
  by (auto split: sum.splits)

lemma effects_of_handler:
  assumes "cb_message cb = Message t"
    and "decode_pagination (int_beyond_ascii w) (cb_data cb) = Inr (ct, action, p)"
  shows "set (fst (pagination_body w cb ct action p)) \<subseteq> set (fst (handle_pagination w cb))"
  unfolding handle_pagination_decoded [OF assms] set_try_except by auto

lemma show_page_effects:
  "set (fst (show_page w ct np no_content txt tp))
     = (if no_content \<and> 0 < tp then {Answer (Some txt_content_error) True}
        else if fault w (EditText txt (get_pagination_keyboard ct np tp)) = None
        then {EditText txt (get_pagination_keyboard ct np tp), Answer None False}
        else {EditText txt (get_pagination_keyboard ct np tp)})"
  by (auto simp: show_page_def call_def and_then_def split: option.splits)

lemma body_history:
  assumes "find (\<lambda>u. telegram_id u = from_user_id cb) (users w) = Some usr"
    and "fault w (GetUserByTelegramId (from_user_id cb)) = None"
    and "fault w (GetUserHistory (u_id usr) (new_page_of action p)) = None"
    and "get_user_history (history w) (u_id usr) (new_page_of action p) 5 = Inr (content, tp)"
  shows "pagination_body w cb ''history'' action p
     = and_then ([GetUserByTelegramId (from_user_id cb),
                  GetUserHistory (u_id usr) (new_page_of action p)], Inr ())
         (\<lambda>_. show_page w ''history'' (new_page_of action p) (content = [])
                 (format_history_message w content (new_page_of action p) tp) tp)"
  using assms
  by (simp add: pagination_body_def db_get_user_by_telegram_id_def db_get_user_history_def
      and_then_def call_def ret_def Let_def split: prod.splits)

lemma body_stats:
  assumes "find (\<lambda>u. telegram_id u = from_user_id cb) (users w) = Some usr"
    and "fault w (GetUserByTelegramId (from_user_id cb)) = None"
    and "fault w (GetUserStats (u_id usr) (new_page_of action p)) = None"
    and "get_user_stats (round_tenth w) (history w) (u_id usr) (new_page_of action p) 5 = Inr (content, tp)"
  shows "pagination_body w cb ''stats'' action p
     = and_then ([GetUserByTelegramId (from_user_id cb),
                  GetUserStats (u_id usr) (new_page_of action p)], Inr ())
         (\<lambda>_. show_page w ''stats'' (new_page_of action p) (content = [])
                 (format_stats_message w content (new_page_of action p) tp) tp)"
  using assms
  by (simp add: pagination_body_def db_get_user_by_telegram_id_def db_get_user_stats_def
      and_then_def call_def ret_def Let_def split: prod.splits)

lemma page_effects_history:
  assumes "find (\<lambda>u. telegram_id u = from_user_id cb) (users w) = Some usr"
    and "fault w (GetUserByTelegramId (from_user_id cb)) = None"
    and "fault w (GetUserHistory (u_id usr) (new_page_of action p)) = None"
    and "get_user_history (history w) (u_id usr) (new_page_of action p) 5 = Inr (content, tp)"
  shows "(content = [] \<and> 0 < tp \<longrightarrow>
            Answer (Some txt_content_error) True
              \<in> set (fst (pagination_body w cb ''history'' action p))
          \<and> (\<forall>txt kb. EditText txt kb \<notin> set (fst (pagination_body w cb ''history'' action p))))
       \<and> (\<not> (content = [] \<and> 0 < tp) \<longrightarrow>
            EditText (format_history_message w content (new_page_of action p) tp)
              (get_pagination_keyboard ''history'' (new_page_of action p) tp)
              \<in> set (fst (pagination_body w cb ''history'' action p)))"
  unfolding body_history [OF assms] set_fst_and_then_unit show_page_effects
  by auto

lemma page_effects_stats:
  assumes "find (\<lambda>u. telegram_id u = from_user_id cb) (users w) = Some usr"
    and "fault w (GetUserByTelegramId (from_user_id cb)) = None"
    and "fault w (GetUserStats (u_id usr) (new_page_of action p)) = None"
    and "get_user_stats (round_tenth w) (history w) (u_id usr) (new_page_of action p) 5 = Inr (content, tp)"
  shows "(content = [] \<and> 0 < tp \<longrightarrow>
            Answer (Some txt_content_error) True
              \<in> set (fst (pagination_body w cb ''stats'' action p))
          \<and> (\<forall>txt kb. EditText txt kb \<notin> set (fst (pagination_body w cb ''stats'' action p))))
       \<and> (\<not> (content = [] \<and> 0 < tp) \<longrightarrow>
            EditText (format_stats_message w content (new_page_of action p) tp)
              (get_pagination_keyboard ''stats'' (new_page_of action p) tp)
              \<in> set (fst (pagination_body w cb ''stats'' action p)))"
  unfolding body_stats [OF assms] set_fst_and_then_unit show_page_effects
  by auto

lemma no_rows_beyond_last_page:
  assumes "total_pages_of (int n) 5 \<le> p"
  shows "1 \<le> p" and "n \<le> nat (p * 5)"
proof -
  show "1 \<le> p" using assms by (simp add: total_pages_of_def)
  have "(int n + 4) div 5 \<le> p" using assms by (simp add: total_pages_of_def add.commute)
  then have "int n \<le> p * 5" by linarith
  then show "n \<le> nat (p * 5)" by linarith
qed

lemma history_beyond_last_page:
  assumes "total_pages_of (int (length (rows_of_user tbl uid))) 5 \<le> p"
  shows "get_user_history tbl uid (p + 1) 5
     = Inr ([], total_pages_of (int (length (rows_of_user tbl uid))) 5)"
  using no_rows_beyond_last_page [OF assms] get_user_history_window [of "p + 1" 5 tbl uid]
  by (simp add: length_order_by_id_desc)

lemma stats_beyond_last_page:
  assumes "total_pages_of (int (length (stats_subquery tbl uid))) 5 \<le> p"
  shows "get_user_stats rnd tbl uid (p + 1) 5
     = Inr ([], total_pages_of (int (length (stats_subquery tbl uid))) 5)"
  using no_rows_beyond_last_page [OF assms] get_user_stats_window [of "p + 1" 5 rnd tbl uid]
  by (simp add: order_by_count_desc_def)

lemma total_pages_positive: "0 < total_pages_of n per_page"
  by (simp add: total_pages_of_def)

lemma no_edit_of_empty_history:
  assumes "get_user_history (history w) (u_id usr) (new_page_of action p) 5 = Inr ([], tp)"
    and "0 < tp"
    and "find (\<lambda>u. telegram_id u = from_user_id cb) (users w) = Some usr"
  shows "EditText a b \<notin> set (fst (pagination_body w cb ''history'' action p))"
  using assms
  by (auto simp: pagination_body_def db_get_user_by_telegram_id_def db_get_user_history_def
      and_then_def call_def ret_def raise_def show_page_def Let_def
      split: prod.splits option.splits sum.splits)

lemma no_edit_of_empty_stats:
  assumes "get_user_stats (round_tenth w) (history w) (u_id usr) (new_page_of action p) 5 = Inr ([], tp)"
    and "0 < tp"
    and "find (\<lambda>u. telegram_id u = from_user_id cb) (users w) = Some usr"
  shows "EditText a b \<notin> set (fst (pagination_body w cb ''stats'' action p))"
  using assms
  by (auto simp: pagination_body_def db_get_user_by_telegram_id_def db_get_user_stats_def
      and_then_def call_def ret_def raise_def show_page_def Let_def
      split: prod.splits option.splits sum.splits)

text \<open>
  Claim C4. Let the callback have its message, the token be decoded, the user be found and
  the fetch of the requested page return. If the page has no items while the page count is
  positive, the handler answers with the alert and does not edit the message; otherwise it
  edits the message with the text of the new page and the keyboard of the new page.
  A request for the page after the last one, or after a later one, never edits the
  message.
\<close>

theorem empty_page_is_not_shown:
  assumes "cb_message cb = Message t"
    and "decode_pagination (int_beyond_ascii w) (cb_data cb) = Inr (ct, action, p)"
    and "find (\<lambda>u. telegram_id u = from_user_id cb) (users w) = Some usr"
    and "fault w (GetUserByTelegramId (from_user_id cb)) = None"
  shows "(ct = ''history'' \<and> fault w (GetUserHistory (u_id usr) (new_page_of action p)) = None \<longrightarrow>
           (\<forall>content tp.
              get_user_history (history w) (u_id usr) (new_page_of action p) 5 = Inr (content, tp)
              \<longrightarrow>
              (content = [] \<and> 0 < tp \<longrightarrow>
                 Answer (Some txt_content_error) True \<in> set (fst (handle_pagination w cb))
               \<and> (\<forall>a b. EditText a b \<notin> set (fst (handle_pagination w cb))))
            \<and> (\<not> (content = [] \<and> 0 < tp) \<longrightarrow>
                 EditText (format_history_message w content (new_page_of action p) tp)
                   (get_pagination_keyboard ''history'' (new_page_of action p) tp)
                   \<in> set (fst (handle_pagination w cb)))))
       \<and> (ct = ''stats'' \<and> fault w (GetUserStats (u_id usr) (new_page_of action p)) = None \<longrightarrow>
           (\<forall>content tp.
              get_user_stats (round_tenth w) (history w) (u_id usr) (new_page_of action p) 5 = Inr (content, tp)
              \<longrightarrow>
              (content = [] \<and> 0 < tp \<longrightarrow>
                 Answer (Some txt_content_error) True \<in> set (fst (handle_pagination w cb))
               \<and> (\<forall>a b. EditText a b \<notin> set (fst (handle_pagination w cb))))
            \<and> (\<not> (content = [] \<and> 0 < tp) \<longrightarrow>
                 EditText (format_stats_message w content (new_page_of action p) tp)
                   (get_pagination_keyboard ''stats'' (new_page_of action p) tp)
                   \<in> set (fst (handle_pagination w cb)))))
       \<and> (action = ''next''
            \<and> (ct = ''history''
                  \<and> total_pages_of (int (length (rows_of_user (history w) (u_id usr)))) 5 \<le> p
                \<or> ct = ''stats''
                  \<and> total_pages_of (int (length (stats_subquery (history w) (u_id usr)))) 5 \<le> p)
           \<longrightarrow> (\<forall>a b. EditText a b \<notin> set (fst (handle_pagination w cb))))"
proof -
  note ed = edits_of_handler [OF assms(1,2)]
  note ef = effects_of_handler [OF assms(1,2)]
  have h: "(content = [] \<and> 0 < tp \<longrightarrow>
                 Answer (Some txt_content_error) True \<in> set (fst (handle_pagination w cb))
               \<and> (\<forall>a b. EditText a b \<notin> set (fst (handle_pagination w cb))))
            \<and> (\<not> (content = [] \<and> 0 < tp) \<longrightarrow>
                 EditText (format_history_message w content (new_page_of action p) tp)
                   (get_pagination_keyboard ''history'' (new_page_of action p) tp)
                   \<in> set (fst (handle_pagination w cb)))"
    if "ct = ''history''"
      and "fault w (GetUserHistory (u_id usr) (new_page_of action p)) = None"
      and "get_user_history (history w) (u_id usr) (new_page_of action p) 5 = Inr (content, tp)"
    for content tp
    using page_effects_history [OF assms(3,4) that(2,3)] ed ef that(1) by auto
  have s: "(content = [] \<and> 0 < tp \<longrightarrow>
                 Answer (Some txt_content_error) True \<in> set (fst (handle_pagination w cb))
               \<and> (\<forall>a b. EditText a b \<notin> set (fst (handle_pagination w cb))))
            \<and> (\<not> (content = [] \<and> 0 < tp) \<longrightarrow>
                 EditText (format_stats_message w content (new_page_of action p) tp)
                   (get_pagination_keyboard ''stats'' (new_page_of action p) tp)
                   \<in> set (fst (handle_pagination w cb)))"
    if "ct = ''stats''"
      and "fault w (GetUserStats (u_id usr) (new_page_of action p)) = None"
      and "get_user_stats (round_tenth w) (history w) (u_id usr) (new_page_of action p) 5 = Inr (content, tp)"
    for content tp
    using page_effects_stats [OF assms(3,4) that(2,3)] ed ef that(1) by auto
  have lh: "EditText a b \<notin> set (fst (handle_pagination w cb))"
    if "action = ''next''" and "ct = ''history''"
      and "total_pages_of (int (length (rows_of_user (history w) (u_id usr)))) 5 \<le> p"
    for a b
  proof -
    have n: "new_page_of action p = p + 1" using that(1) by (simp add: new_page_of_def)
    have "get_user_history (history w) (u_id usr) (new_page_of action p) 5
        = Inr ([], total_pages_of (int (length (rows_of_user (history w) (u_id usr)))) 5)"
      unfolding n by (rule history_beyond_last_page [OF that(3)])
    from no_edit_of_empty_history [OF this total_pages_positive assms(3)] ed that(2)
    show ?thesis by simp
  qed
  have ls: "EditText a b \<notin> set (fst (handle_pagination w cb))"
    if "action = ''next''" and "ct = ''stats''"
      and "total_pages_of (int (length (stats_subquery (history w) (u_id usr)))) 5 \<le> p"
    for a b
  proof -
    have n: "new_page_of action p = p + 1" using that(1) by (simp add: new_page_of_def)
    have "get_user_stats (round_tenth w) (history w) (u_id usr) (new_page_of action p) 5
        = Inr ([], total_pages_of (int (length (stats_subquery (history w) (u_id usr)))) 5)"
      unfolding n by (rule stats_beyond_last_page [OF that(3)])
    from no_edit_of_empty_stats [OF this total_pages_positive assms(3)] ed that(2)
    show ?thesis by simp
  qed
  show ?thesis using h s lh ls by blast
qed

lemma no_edit_filter: "filter is_edit xs = [] \<longleftrightarrow> (\<forall>a b. EditText a b \<notin> set xs)"
proof (induction xs)
  case Nil
  show ?case by simp
next
  case (Cons x xs)
  then show ?case by (cases x) auto
qed

lemma example_callback_fields:
  "cb_message (example_callback token) = Message None"
  "cb_data (example_callback token) = Some token"
  "from_user_id (example_callback token) = 100"
  by (simp_all add: example_callback_def)

lemma example_world_fields:
  "find (\<lambda>u. telegram_id u = 100) (users example_world)
     = Some \<lparr> u_id = 1, telegram_id = 100, username = None \<rparr>"
  "fault example_world e = None"
  "history example_world = example_table"
  "round_tenth example_world = round_half_up_tenth"
  by (simp_all add: example_world_def)

lemma example_rows_length: "length (rows_of_user example_table 1) = 12"
  by (simp add: example_table_def example_row_def rows_of_user_def)

lemma example_groups_length: "length (stats_subquery example_table 1) = 1"
  by (simp add: stats_subquery_def Let_def example_table_def example_row_def rows_of_user_def
      group_key_def)

lemma py_int_small:
  "py_int uni ''1'' = Some 1" "py_int uni ''2'' = Some 2" "py_int uni ''3'' = Some 3"
  by (simp_all add: py_int_def ascii_int_def is_ascii_def strip_def is_space_def valid_digits_def is_digit_def
      digits_value_def digit_value_def Let_def)

lemma example_decodes:
  "decode_pagination uni (Some ''pagination_history_next_3'') = Inr (''history'', ''next'', 3)"
  "decode_pagination uni (Some ''pagination_history_next_2'') = Inr (''history'', ''next'', 2)"
  "decode_pagination uni (Some ''pagination_stats_next_1'') = Inr (''stats'', ''next'', 1)"
  "decode_pagination uni (Some ''pagination_stats_prev_2'') = Inr (''stats'', ''prev'', 2)"
  by (simp_all add: decode_pagination_def py_int_small)

theorem empty_page_is_not_shown_witness:
  "Answer (Some txt_content_error) True
     \<in> set (fst (handle_pagination example_world (example_callback ''pagination_history_next_3'')))
   \<and> filter is_edit
        (fst (handle_pagination example_world (example_callback ''pagination_history_next_3'')))
       = []
   \<and> EditText
        (format_history_message example_world
           (drop 10 (order_by_id_desc (rows_of_user example_table 1))) 3 3)
        (get_pagination_keyboard ''history'' 3 3)
     \<in> set (fst (handle_pagination example_world (example_callback ''pagination_history_next_2'')))
   \<and> filter is_edit
        (fst (handle_pagination example_world (example_callback ''pagination_stats_next_1'')))
       = []
   \<and> EditText
        (format_stats_message example_world
           (map (stats_dict round_half_up_tenth)
              (order_by_count_desc (stats_subquery example_table 1))) 1 1)
        (get_pagination_keyboard ''stats'' 1 1)
     \<in> set (fst (handle_pagination example_world (example_callback ''pagination_stats_prev_2'')))"
proof -
  let ?u = "\<lparr> u_id = 1, telegram_id = 100, username = None \<rparr>"
  note c = example_callback_fields
  note w = example_world_fields
  have tp: "total_pages_of 12 5 = 3" "total_pages_of 1 5 = 1"
    by (simp_all add: total_pages_of_def)
  have h4: "get_user_history example_table 1 4 5 = Inr ([], 3)"
    using get_user_history_window [of 4 5 example_table 1]
    by (simp add: example_rows_length length_order_by_id_desc tp)
  have h3: "get_user_history example_table 1 3 5
      = Inr (drop 10 (order_by_id_desc (rows_of_user example_table 1)), 3)"
    using get_user_history_window [of 3 5 example_table 1]
    by (simp add: example_rows_length length_order_by_id_desc tp)
  have ne3: "drop 10 (order_by_id_desc (rows_of_user example_table 1)) \<noteq> []"
    by (simp add: example_rows_length length_order_by_id_desc)
  have s2: "get_user_stats round_half_up_tenth example_table 1 2 5 = Inr ([], 1)"
    using get_user_stats_window [of 2 5 round_half_up_tenth example_table 1]
    by (simp add: example_groups_length order_by_count_desc_def tp)
  have s1: "get_user_stats round_half_up_tenth example_table 1 1 5
      = Inr (map (stats_dict round_half_up_tenth) (order_by_count_desc (stats_subquery example_table 1)), 1)"
    using get_user_stats_window [of 1 5 round_half_up_tenth example_table 1]
    by (simp add: example_groups_length order_by_count_desc_def tp)
  have "length (order_by_count_desc (stats_subquery example_table 1)) = 1"
    by (simp add: order_by_count_desc_def example_groups_length)
  then have ne1: "map (stats_dict round_half_up_tenth) (order_by_count_desc (stats_subquery example_table 1)) \<noteq> []"
    by auto
  have n: "new_page_of ''next'' 3 = 4" "new_page_of ''next'' 2 = 3" "new_page_of ''next'' 1 = 2"
    "new_page_of ''prev'' 2 = 1"
    by (simp_all add: new_page_of_def)
  note a = empty_page_is_not_shown
    [of "example_callback ''pagination_history_next_3''" None example_world "''history''" "''next''" 3 ?u]
  have a1: "Answer (Some txt_content_error) True
       \<in> set (fst (handle_pagination example_world
                     (example_callback ''pagination_history_next_3'')))
     \<and> (\<forall>a b. EditText a b
           \<notin> set (fst (handle_pagination example_world
                         (example_callback ''pagination_history_next_3''))))"
    using a h4 by (simp add: c w n example_decodes)
  note b = empty_page_is_not_shown
    [of "example_callback ''pagination_history_next_2''" None example_world "''history''" "''next''" 2 ?u]
  have b1: "EditText
        (format_history_message example_world
           (drop 10 (order_by_id_desc (rows_of_user example_table 1))) 3 3)
        (get_pagination_keyboard ''history'' 3 3)
     \<in> set (fst (handle_pagination example_world
                   (example_callback ''pagination_history_next_2'')))"
    using b h3 ne3 by (simp add: c w n example_decodes)
  note s = empty_page_is_not_shown
    [of "example_callback ''pagination_stats_next_1''" None example_world "''stats''" "''next''" 1 ?u]
  have c1: "\<forall>a b. EditText a b
           \<notin> set (fst (handle_pagination example_world
                         (example_callback ''pagination_stats_next_1'')))"
    using s s2 by (simp add: c w n example_decodes)
  note d = empty_page_is_not_shown
    [of "example_callback ''pagination_stats_prev_2''" None example_world "''stats''" "''prev''" 2 ?u]
  have d1: "EditText
        (format_stats_message example_world
           (map (stats_dict round_half_up_tenth)
              (order_by_count_desc (stats_subquery example_table 1))) 1 1)
        (get_pagination_keyboard ''stats'' 1 1)
     \<in> set (fst (handle_pagination example_world
                   (example_callback ''pagination_stats_prev_2'')))"
    using d s1 ne1 by (simp add: c w n example_decodes)
  show ?thesis using a1 b1 c1 d1 by (simp add: no_edit_filter)
qed

subsection \<open>The direction segment\<close>

lemma split_on_pieces: "s \<in> set (split_on sep xs) \<Longrightarrow> sep \<notin> set s"
proof (induction xs arbitrary: s)
  case Nil
  then show ?case by simp
next
  case (Cons c cs)
  show ?case
  proof (cases "c = sep")
    case True
    with Cons show ?thesis by auto
  next
    case False
    obtain q qs where q: "split_on sep cs = q # qs"
      by (cases "split_on sep cs") (simp_all, cases cs, simp_all split: list.splits if_splits)
    from Cons.prems False q have "s = c # q \<or> s \<in> set qs" by simp
    with Cons.IH [of q] Cons.IH [of s] q False show ?thesis by auto
  qed
qed

lemma decoded_kind_has_no_underscore:
  assumes "decode_pagination uni data = Inr (ct, action, p)"
  shows "CHR ''_'' \<notin> set ct"
proof -
  let ?parts = "split_on CHR ''_'' (case data of None \<Rightarrow> [] | Some d \<Rightarrow> d)"
  from assms have l: "length ?parts = 4" and c: "ct = ?parts ! 1"
    by (auto simp: decode_pagination_def Let_def split: if_splits option.splits)
  from l c have "ct \<in> set ?parts" by simp
  then show ?thesis by (rule split_on_pieces)
qed

lemma body_reads_direction_by_new_page:
  assumes "new_page_of action p = new_page_of action' p"
    and "from_user_id cb = from_user_id cb'"
  shows "pagination_body w cb ct action p = pagination_body w cb' ct action' p"
  by (simp only: pagination_body_def assms)

lemma fetch_of_body:
  assumes "find (\<lambda>u. telegram_id u = from_user_id cb) (users w) = Some usr"
    and "fault w (GetUserByTelegramId (from_user_id cb)) = None"
  shows "GetUserHistory (u_id usr) (new_page_of action p)
           \<in> set (fst (pagination_body w cb ''history'' action p))"
    and "GetUserStats (u_id usr) (new_page_of action p)
           \<in> set (fst (pagination_body w cb ''stats'' action p))"
  using assms
  by (auto simp: pagination_body_def db_get_user_by_telegram_id_def db_get_user_history_def
      db_get_user_stats_def and_then_def call_def ret_def raise_def Let_def
      split: prod.splits option.splits sum.splits)

text \<open>
  Claim C10. Where the callback has its message and the token is decoded with a direction
  other than \<open>next\<close>, whatever string it is, the new page is the current page minus one
  and the handler does exactly what it does for the \<open>prev\<close> token of the same kind and
  page: where the user is found, it fetches page \<open>current_page - 1\<close> of the kind.
\<close>

theorem other_direction_is_prev:
  assumes "cb_message cb = Message t"
    and "decode_pagination (int_beyond_ascii w) (cb_data cb) = Inr (ct, action, p)"
    and "action \<noteq> ''next''"
  shows "new_page_of action p = p - 1
       \<and> handle_pagination w cb
           = handle_pagination w (cb\<lparr>cb_data := Some (pagination_token ct ''prev'' p)\<rparr>)
       \<and> (\<forall>usr. find (\<lambda>u. telegram_id u = from_user_id cb) (users w) = Some usr
                 \<and> fault w (GetUserByTelegramId (from_user_id cb)) = None \<longrightarrow>
             (ct = ''history'' \<longrightarrow>
                GetUserHistory (u_id usr) (p - 1) \<in> set (fst (handle_pagination w cb)))
           \<and> (ct = ''stats'' \<longrightarrow>
                GetUserStats (u_id usr) (p - 1) \<in> set (fst (handle_pagination w cb))))"
proof -
  let ?cb = "cb\<lparr>cb_data := Some (pagination_token ct ''prev'' p)\<rparr>"
  have n: "new_page_of action p = p - 1"
    using assms(3) by (simp add: new_page_of_def)
  have n': "new_page_of action p = new_page_of ''prev'' p"
    using assms(3) by (simp add: new_page_of_def)
  have k: "CHR ''_'' \<notin> set ct"
    using assms(2) by (rule decoded_kind_has_no_underscore)
  have pv: "CHR ''_'' \<notin> set ''prev''" by simp
  have d': "decode_pagination (int_beyond_ascii w) (cb_data ?cb) = Inr (ct, ''prev'', p)"
    using decode_pagination_token [OF k pv, of "int_beyond_ascii w" p] by simp
  have m': "cb_message ?cb = Message t" using assms(1) by simp
  have b: "pagination_body w cb ct action p = pagination_body w ?cb ct ''prev'' p"
    by (rule body_reads_direction_by_new_page [OF n']) simp
  have e: "handle_pagination w cb = handle_pagination w ?cb"
    unfolding handle_pagination_decoded [OF assms(1,2)] handle_pagination_decoded [OF m' d'] b
    by (rule refl)
  have f: "(ct = ''history'' \<longrightarrow>
                GetUserHistory (u_id usr) (p - 1) \<in> set (fst (handle_pagination w cb)))
           \<and> (ct = ''stats'' \<longrightarrow>
                GetUserStats (u_id usr) (p - 1) \<in> set (fst (handle_pagination w cb)))"
    if "find (\<lambda>u. telegram_id u = from_user_id cb) (users w) = Some usr"
      and "fault w (GetUserByTelegramId (from_user_id cb)) = None"
    for usr
    using fetch_of_body [OF that, of action p] effects_of_handler [OF assms(1,2)] n
    by auto
  show ?thesis using n e f by blast
qed

theorem other_direction_is_prev_witness:
  "cb_message (example_callback ''pagination_history__3'') = Message None
   \<and> decode_pagination (int_beyond_ascii example_world)
        (cb_data (example_callback ''pagination_history__3''))
       = Inr (''history'', [], 3)
   \<and> [] \<noteq> ''next''
   \<and> handle_pagination example_world (example_callback ''pagination_history__3'')
       = handle_pagination example_world (example_callback ''pagination_history_prev_3'')
   \<and> GetUserHistory 1 2
       \<in> set (fst (handle_pagination example_world (example_callback ''pagination_history__3'')))"
proof -
  have d: "decode_pagination (int_beyond_ascii example_world)
        (cb_data (example_callback ''pagination_history__3''))
       = Inr (''history'', [], 3)"
    by (simp add: example_callback_fields decode_pagination_def py_int_small)
  have ne: "[] \<noteq> ''next''" by simp
  have tk: "pagination_token ''history'' ''prev'' 3 = ''pagination_history_prev_3''"
    by (simp add: pagination_token_def str_int_def digits_of.simps digit_chars)
  have cb: "(example_callback ''pagination_history__3'')
              \<lparr>cb_data := Some ''pagination_history_prev_3''\<rparr>
      = example_callback ''pagination_history_prev_3''"
    by (simp add: example_callback_def)
  note t = other_direction_is_prev
    [OF example_callback_fields(1) d ne]
  have e: "handle_pagination example_world (example_callback ''pagination_history__3'')
       = handle_pagination example_world (example_callback ''pagination_history_prev_3'')"
    using t by (simp only: tk cb)
  have "find (\<lambda>u. telegram_id u = from_user_id (example_callback ''pagination_history__3''))
          (users example_world) = Some \<lparr> u_id = 1, telegram_id = 100, username = None \<rparr>
      \<and> fault example_world
          (GetUserByTelegramId (from_user_id (example_callback ''pagination_history__3''))) = None"
    by (simp add: example_callback_fields example_world_fields)
  with t have "GetUserHistory (u_id \<lparr> u_id = 1, telegram_id = 100, username = None \<rparr>) (3 - 1)
       \<in> set (fst (handle_pagination example_world (example_callback ''pagination_history__3'')))"
    by blast
  then have f: "GetUserHistory 1 2
       \<in> set (fst (handle_pagination example_world (example_callback ''pagination_history__3'')))"
    by simp
  show ?thesis using d ne e f by (simp add: example_callback_fields)
qed

subsection \<open>Tokens that are not decoded\<close>








section \<open>Properties of the catalog client\<close>

lemma null_rating_raises: "movie_info rt null_rating_film = Inl AttributeError"
  by (simp add: movie_info_def null_rating_film_def then_sum_def rating_of_def)

lemma good_film_parses: "\<exists>movie. movie_info rt good_film = Inr movie"
  by (simp add: movie_info_def good_film_def then_sum_def rating_of_def nested_or_def)

lemma nameless_film_raises: "movie_info rt (JDict [(''id'', JInt 303)]) = Inl KeyError"
  by (simp add: movie_info_def then_sum_def)

lemma good_film_id:
  "map mi_id (case movie_info rt good_film of Inl e \<Rightarrow> [] | Inr movie \<Rightarrow> [movie]) = [JInt 301]"
  by (simp add: movie_info_def good_film_def then_sum_def rating_of_def nested_or_def)

lemma attribute_error_not_caught:
  "\<not> is_key_or_value_error AttributeError" "AttributeError \<noteq> ClientError"
  "JSONDecodeError \<noteq> ClientError"
  by (simp_all add: is_key_or_value_error_def)

text \<open>
  Claim C9 fails on the code. A response of status 200 whose first record has the field
  \<open>rating\<close> set to \<open>null\<close> makes \<open>search_movie\<close> raise \<open>AttributeError\<close>: the record
  is not skipped and the record after it is not returned. The same record makes
  \<open>get_movie_details\<close> raise, and a body that is not JSON makes both raise
  \<open>JSONDecodeError\<close>. A first record without the field \<open>name\<close>, in contrast, is
  skipped and the record after it is returned.
\<close>

theorem malformed_record_escapes_client:
  "snd (search_movie plain_runtime
          (\<lambda>url params. Response 200 (Inr (JDict [(''docs'', JList [null_rating_film, good_film])])))
          ''matrix'')
     = Inl AttributeError
   \<and> snd (get_movie_details plain_runtime (\<lambda>url params. Response 200 (Inr null_rating_film)) 302)
     = Inl AttributeError
   \<and> snd (search_movie plain_runtime (\<lambda>url params. Response 200 (Inl JSONDecodeError)) ''matrix'')
     = Inl JSONDecodeError
   \<and> snd (get_movie_details plain_runtime (\<lambda>url params. Response 200 (Inl JSONDecodeError)) 302)
     = Inl JSONDecodeError
   \<and> map mi_id
        (case snd (search_movie plain_runtime
                     (\<lambda>url params. Response 200
                        (Inr (JDict [(''docs'', JList [JDict [(''id'', JInt 303)], good_film])])))
                     ''matrix'') of
           Inl e \<Rightarrow> [] | Inr movies \<Rightarrow> movies)
     = [JInt 301]"
proof -
  obtain movie where m: "movie_info plain_runtime good_film = Inr movie"
    using good_film_parses by blast
  have i: "mi_id movie = JInt 301"
    using good_film_id [of plain_runtime] m by simp
  show ?thesis
    by (simp add: search_movie_def get_movie_details_def http_get_def try_except_def
        and_then_def then_sum_def raise_def ret_def log_error_def except_client_error_def
        null_rating_raises nameless_film_raises attribute_error_not_caught
        is_key_or_value_error_def m i)
qed

section \<open>Properties of the handler boundary\<close>

text \<open>
  Claim C5 fails on the code. \<open>handle_search\<close> has no handler boundary: when the store
  raises in \<open>get_or_create_user\<close>, the exception leaves \<open>handle_search\<close> and nothing is
  logged or sent. In \<open>handle_pagination\<close>, when the callback has no message and the answer
  to it raises, the \<open>except\<close> clause raises \<open>UnboundLocalError\<close> in its turn; and when
  Telegram is down, the exception of the answer in the \<open>except\<close> clause leaves the handler.
\<close>

theorem fault_escapes_handler:
  "handle_search plain_runtime (example_world\<lparr>fault := store_down\<rparr>)
      (\<lambda>url params. Response 200 (Inr (JDict [(''docs'', JList [good_film])])))
      \<lparr> msg_from_user = Some (100, None), msg_text = ''matrix'' \<rparr>
     = ([GetOrCreateUser 100 None], Inl DatabaseError)
   \<and> handle_pagination (example_world\<lparr>fault := telegram_down\<rparr>)
        \<lparr> cb_message = NoMessage, cb_data = Some ''pagination_history_next_1'',
          from_user_id = 100 \<rparr>
     = ([Answer (Some txt_message_not_found) True], Inl UnboundLocalError)
   \<and> snd (handle_pagination (example_world\<lparr>fault := telegram_down\<rparr>)
             (example_callback ''pagination_history_next_1''))
     = Inl TelegramError"
proof -
  have s: "handle_search plain_runtime (example_world\<lparr>fault := store_down\<rparr>)
      (\<lambda>url params. Response 200 (Inr (JDict [(''docs'', JList [good_film])])))
      \<lparr> msg_from_user = Some (100, None), msg_text = ''matrix'' \<rparr>
     = ([GetOrCreateUser 100 None], Inl DatabaseError)"
    by (simp add: handle_search_def get_or_create_user_def call_def and_then_def)
  have u: "handle_pagination (example_world\<lparr>fault := telegram_down\<rparr>)
        \<lparr> cb_message = NoMessage, cb_data = Some ''pagination_history_next_1'',
          from_user_id = 100 \<rparr>
     = ([Answer (Some txt_message_not_found) True], Inl UnboundLocalError)"
    by (simp add: handle_pagination_def try_except_def call_def pagination_except_def raise_def)
  have d: "decode_pagination (int_beyond_ascii example_world) (Some ''pagination_history_next_1'')
      = Inr (''history'', ''next'', 1)"
    by (simp add: decode_pagination_def py_int_small)
  have w: "users (example_world\<lparr>fault := telegram_down\<rparr>)
        = [\<lparr> u_id = 1, telegram_id = 100, username = None \<rparr>]"
    "history (example_world\<lparr>fault := telegram_down\<rparr>) = example_table"
    "fault (example_world\<lparr>fault := telegram_down\<rparr>) = telegram_down"
    by (simp_all add: example_world_def)
  have tp: "total_pages_of 12 5 = 3" by (simp add: total_pages_of_def)
  have h2: "get_user_history example_table 1 2 5
      = Inr (take 5 (drop 5 (order_by_id_desc (rows_of_user example_table 1))), 3)"
    using get_user_history_window [of 2 5 example_table 1]
    by (simp add: example_rows_length tp)
  have ne: "take 5 (drop 5 (order_by_id_desc (rows_of_user example_table 1))) \<noteq> []"
    by (simp add: example_rows_length length_order_by_id_desc)
  have t: "snd (handle_pagination (example_world\<lparr>fault := telegram_down\<rparr>)
             (example_callback ''pagination_history_next_1''))
     = Inl TelegramError"
    using ne
    by (simp add: handle_pagination_def example_callback_fields d try_except_def
        pagination_body_def db_get_user_by_telegram_id_def db_get_user_history_def
        and_then_def call_def ret_def raise_def w new_page_of_def h2 show_page_def
        pagination_except_def log_error_def
        split: prod.splits)
  show ?thesis using s u t by simp
qed

end
